theory Spec2Isabelle
  imports Main
begin

section \<open>Library functions the middleware calls\<close>

text \<open>
  Go strings are byte sequences; \<open>string\<close> (a list of 8-bit characters) stands for them,
  and \<open>length\<close> is Go's \<open>len\<close>.  The three helpers of package \<open>strings\<close> that
  \<open>matchPath\<close> uses are written out as the standard library defines them.
\<close>

definition strings_HasPrefix :: "string \<Rightarrow> string \<Rightarrow> bool" where
  "strings_HasPrefix s pre = (length s \<ge> length pre \<and> take (length pre) s = pre)"

definition strings_HasSuffix :: "string \<Rightarrow> string \<Rightarrow> bool" where
  "strings_HasSuffix s suf =
     (length s \<ge> length suf \<and> drop (length s - length suf) s = suf)"

definition strings_TrimSuffix :: "string \<Rightarrow> string \<Rightarrow> string" where
  "strings_TrimSuffix s suf =
     (if strings_HasSuffix s suf then take (length s - length suf) s else s)"

fun strings_Contains :: "string \<Rightarrow> string \<Rightarrow> bool" where
  "strings_Contains [] sub = (sub = [])"
| "strings_Contains (c # cs) sub =
     (strings_HasPrefix (c # cs) sub \<or> strings_Contains cs sub)"

text \<open>
  JSON values as \<open>encoding/json\<close> decodes them into an \<open>interface{}\<close>.  A Go \<open>nil\<close>
  interface is \<open>None\<close> of \<open>json option\<close>.
\<close>

datatype json =
    JBool bool
  | JNumber int
  | JString string
  | JArray "json list"
  | JObject "(string \<times> json) list"

section \<open>Configuration (config.go)\<close>

record TokenRequirement =
  tok_Network :: string
  tok_AssetContract :: string
  tok_Symbol :: string
  tok_Recipient :: string
  tok_TokenName :: string
  tok_TokenDecimals :: int

record PricingRule =
  rule_Amount :: string
  rule_AcceptedTokens :: "TokenRequirement list"
  rule_Description :: string
  rule_MimeType :: string
  rule_OutputSchema :: "(string \<times> json) list option"

text \<open>
  A Go map is iterated in an unspecified order.  A pricing table is the list of its
  entries in the order one iteration visits them; every theorem below holds for every
  such order.  \<open>table_lookup\<close> is the map index expression \<open>m[key]\<close>.
\<close>

type_synonym pricing_table = "(string \<times> PricingRule) list"

definition table_lookup :: "pricing_table \<Rightarrow> string \<Rightarrow> PricingRule option" where
  "table_lookup tbl k = map_of tbl k"

text \<open>
  \<open>matchPath\<close> ends in a call of the standard library's \<open>path.Match(pattern, name)\<close>,
  whose error result it drops.  The shell-glob matcher is the parameter \<open>glob\<close>.
\<close>

type_synonym glob_matcher = "string \<Rightarrow> string \<Rightarrow> bool"

definition matchPath :: "glob_matcher \<Rightarrow> string \<Rightarrow> string \<Rightarrow> bool" where
  "matchPath glob requestPath pattern =
     (if requestPath = pattern then True
      else if strings_HasSuffix pattern ''/*'' then
        (let prefix = strings_TrimSuffix pattern ''/*''
         in strings_HasPrefix requestPath (prefix @ ''/'') \<or> requestPath = prefix)
      else glob pattern requestPath)"

text \<open>The loop over the skip list: the first matching pattern returns at once.\<close>

fun skipped :: "glob_matcher \<Rightarrow> string \<Rightarrow> string list \<Rightarrow> bool" where
  "skipped glob ident [] = False"
| "skipped glob ident (skipPath # rest) =
     (if matchPath glob ident skipPath then True else skipped glob ident rest)"

text \<open>
  The wildcard scan: \<open>bestMatch\<close> starts as the empty string and \<open>bestRule\<close> as nil; an
  entry replaces them when its pattern matches and is strictly longer than \<open>bestMatch\<close>.
\<close>

fun wildcardScan ::
  "glob_matcher \<Rightarrow> string \<Rightarrow> pricing_table \<Rightarrow> string \<times> PricingRule option
     \<Rightarrow> string \<times> PricingRule option" where
  "wildcardScan glob ident [] best = best"
| "wildcardScan glob ident ((pattern, rule) # rest) (bestMatch, bestRule) =
     (if matchPath glob ident pattern \<and> length pattern > length bestMatch
      then wildcardScan glob ident rest (pattern, Some rule)
      else wildcardScan glob ident rest (bestMatch, bestRule))"

text \<open>
  \<open>MatchEndpoint\<close> and \<open>MatchMethod\<close> have the same body; they differ in the skip list
  and the table they read.  \<open>resolve\<close> is that body, with the pair \<open>(*PricingRule, bool)\<close>
  it returns.
\<close>

definition resolve ::
  "glob_matcher \<Rightarrow> string list \<Rightarrow> pricing_table \<Rightarrow> PricingRule option \<Rightarrow> string
     \<Rightarrow> PricingRule option \<times> bool" where
  "resolve glob skips tbl dflt ident =
     (if skipped glob ident skips then (None, False)
      else case table_lookup tbl ident of
        Some rule \<Rightarrow> (Some rule, True)
      | None \<Rightarrow>
         (case snd (wildcardScan glob ident tbl ([], None)) of
            Some bestRule \<Rightarrow> (Some bestRule, True)
          | None \<Rightarrow>
             (case dflt of
                Some d \<Rightarrow> (Some d, True)
              | None \<Rightarrow> (None, False))))"

section \<open>Wire and context types (types.go)\<close>

text \<open>A \<open>time.Time\<close> is a count of nanoseconds; the zero \<open>time.Time{}\<close> is \<open>0\<close>.\<close>

type_synonym Time = int

definition zeroTime :: Time where
  "zeroTime = 0"

record PaymentRequirements =
  req_Scheme :: string
  req_Network :: string
  req_Amount :: string
  req_Asset :: string
  req_PayTo :: string
  req_MaxTimeoutSeconds :: int
  req_Extra :: "(string \<times> json) list option"

record PaymentPayload =
  pay_X402Version :: int
  pay_Accepted :: PaymentRequirements
  pay_Payload :: "json option"
  pay_Extensions :: "(string \<times> json) list option"

record LegacyPayment =
  leg_X402Version :: int
  leg_Scheme :: string
  leg_Network :: string
  leg_Payload :: "json option"

record VerificationResult =
  ver_Valid :: bool
  ver_Reason :: string
  ver_PayerAddress :: string
  ver_Amount :: string
  ver_TokenSymbol :: string

record SettlementResult =
  stl_TransactionHash :: string
  stl_Status :: string
  stl_SettledAt :: Time
  stl_Amount :: string
  stl_PayerAddress :: string
  stl_RecipientAddress :: string
  stl_Network :: string

record PaymentResponse =
  rsp_Success :: bool
  rsp_Transaction :: string
  rsp_Network :: string
  rsp_Payer :: string
  rsp_ErrorReason :: string

record PaymentRequiredResponse =
  prr_X402Version :: int
  prr_Error :: string
  prr_Accepts :: "PaymentRequirements list"

record PaymentContext =
  pc_Verified :: bool
  pc_PayerAddress :: string
  pc_Amount :: string
  pc_TokenSymbol :: string
  pc_Network :: string
  pc_TransactionHash :: string
  pc_SettledAt :: Time

text \<open>
  The types of the version-1 package (the repository root), where they differ from the
  version-2 ones.  \<open>VerificationResult\<close>, \<open>PaymentContext\<close>, \<open>PricingRule\<close> and
  \<open>TokenRequirement\<close> have the same fields in both packages.
\<close>

record Payment =
  p1_X402Version :: int
  p1_Scheme :: string
  p1_Network :: string
  p1_Payload :: "json option"

record Metadata =
  meta_TokenSymbol :: string
  meta_TokenName :: string
  meta_TokenDecimals :: int

record V1_PaymentRequirements =
  rq1_X402Version :: int
  rq1_Scheme :: string
  rq1_Network :: string
  rq1_MaxAmountRequired :: string
  rq1_Resource :: string
  rq1_Description :: string
  rq1_MimeType :: string
  rq1_Recipient :: string
  rq1_ValidBefore :: int
  rq1_AssetContract :: string
  rq1_Metadata :: Metadata
  rq1_OutputSchema :: "(string \<times> json) list option"

record V1_PaymentRequiredResponse =
  prr1_Error :: string
  prr1_PaymentRequirements :: "V1_PaymentRequirements list"

record V1_SettlementResult =
  stl1_TransactionHash :: string
  stl1_Status :: string
  stl1_SettledAt :: Time
  stl1_Amount :: string
  stl1_PayerAddress :: string
  stl1_RecipientAddress :: string

record V1_PaymentResponse =
  rsp1_TransactionHash :: string
  rsp1_Status :: string
  rsp1_Message :: string

text \<open>
  gRPC metadata (\<open>metadata.MD\<close>, a \<open>map[string][]string\<close>).  Every key the code uses
  is a lower-case constant, so the lower-casing of \<open>Get\<close>, \<open>Set\<close> and \<open>Pairs\<close> is the
  identity on them.
\<close>

type_synonym MD = "string \<rightharpoonup> string list"

definition MD_Get :: "MD \<Rightarrow> string \<Rightarrow> string list" where
  "MD_Get md k = (case md k of None \<Rightarrow> [] | Some vs \<Rightarrow> vs)"

definition MD_Set :: "MD \<Rightarrow> string \<Rightarrow> string \<Rightarrow> MD" where
  "MD_Set md k v = md(k \<mapsto> [v])"

definition MD_Pairs :: "string \<Rightarrow> string \<Rightarrow> MD" where
  "MD_Pairs k v = [k \<mapsto> [v]]"

text \<open>
  \<open>metadata.Join\<close> of two maps: under every key the values of the first, then the
  values of the second.
\<close>

definition MD_Join :: "MD \<Rightarrow> MD \<Rightarrow> MD" where
  "MD_Join md1 md2 =
     (\<lambda>k. case md1 k of
             None \<Rightarrow> md2 k
           | Some vs1 \<Rightarrow> (case md2 k of None \<Rightarrow> Some vs1 | Some vs2 \<Rightarrow> Some (vs1 @ vs2)))"

text \<open>
  A request context, as far as the middleware reads and writes it: the value stored
  under \<open>PaymentContextKey\<close>, seen through the type assertion \<open>.(*PaymentContext)\<close>
  (no such value, a nil pointer, or a pointer to a \<open>PaymentContext\<close>), and the incoming
  gRPC metadata (\<open>metadata.FromIncomingContext\<close>).
\<close>

datatype payment_slot = NoValue | NilPointer | Pointer PaymentContext

record Context =
  ctx_payment :: payment_slot
  ctx_incoming :: "MD option"

definition WithValue_PaymentContextKey :: "Context \<Rightarrow> PaymentContext \<Rightarrow> Context" where
  "WithValue_PaymentContextKey ctx paymentCtx = ctx\<lparr>ctx_payment := Pointer paymentCtx\<rparr>"

text \<open>
  The verifier capability.  \<open>Inl\<close> is the error result; by the interface's contract a
  call that returns no error returns a result.
\<close>

record ChainVerifier =
  cv_Verify ::
    "Context \<Rightarrow> PaymentPayload \<Rightarrow> PaymentRequirements option \<Rightarrow> string + VerificationResult"
  cv_Settle ::
    "Context \<Rightarrow> PaymentPayload \<Rightarrow> PaymentRequirements option \<Rightarrow> string + SettlementResult"

text \<open>
  The handler closures exist only once \<open>Validate\<close> has accepted the configuration, which
  refuses a nil verifier; \<open>Config\<close> therefore holds the verifier itself.  A
  \<open>time.Duration\<close> is a count of nanoseconds.
\<close>

record Config =
  cfg_Verifier :: ChainVerifier
  cfg_EndpointPricing :: pricing_table
  cfg_MethodPricing :: pricing_table
  cfg_DefaultPricing :: "PricingRule option"
  cfg_ValidityDuration :: int
  cfg_SkipPaths :: "string list"
  cfg_SkipMethods :: "string list"
  cfg_CustomPaywallHTML :: string

definition MatchEndpoint :: "glob_matcher \<Rightarrow> Config \<Rightarrow> string \<Rightarrow> PricingRule option \<times> bool" where
  "MatchEndpoint glob c requestPath =
     resolve glob (cfg_SkipPaths c) (cfg_EndpointPricing c) (cfg_DefaultPricing c) requestPath"

definition MatchMethod :: "glob_matcher \<Rightarrow> Config \<Rightarrow> string \<Rightarrow> PricingRule option \<times> bool" where
  "MatchMethod glob c fullMethod =
     resolve glob (cfg_SkipMethods c) (cfg_MethodPricing c) (cfg_DefaultPricing c) fullMethod"

text \<open>
  The standard-library calls of the codec and of the 402 body, as parameters:
  \<open>base64.StdEncoding\<close>, \<open>json.Unmarshal\<close> into each struct (\<open>None\<close> is its error),
  \<open>json.Marshal\<close> of each struct (\<open>None\<close> is its error), \<open>path.Match\<close>, and
  \<open>int(d.Seconds())\<close> of a duration.
\<close>

record stdlib =
  lib_glob :: glob_matcher
  lib_b64decode :: "string \<Rightarrow> string option"
  lib_b64encode :: "string \<Rightarrow> string"
  lib_unmarshalPayload :: "string \<Rightarrow> PaymentPayload option"
  lib_unmarshalLegacy :: "string \<Rightarrow> LegacyPayment option"
  lib_marshalResponse :: "PaymentResponse \<Rightarrow> string option"
  lib_marshalRequired :: "PaymentRequiredResponse \<Rightarrow> string option"
  lib_seconds :: "int \<Rightarrow> int"

section \<open>Errors and messages\<close>

text \<open>
  The errors of the decoders, one constructor per \<open>fmt.Errorf\<close> of the source, and the
  messages the transports build from them with \<open>fmt.Sprintf\<close>.  The text of a
  verifier's error is a string.
\<close>

datatype decode_error =
    Base64Failed
  | JSONFailed
  | VersionTooLow int
  | VersionRequired
  | SchemeRequired
  | NetworkRequired
  | PayloadRequired
  | NoPaymentFound

datatype message =
    InvalidPaymentHeader decode_error
  | InvalidPayment decode_error
  | VerificationError string
  | SettlementError string
  | EncodedRequirements string
  | EncodeRequirementsFailed
  | NoRequirementsConfigured
  | ContextNotFound
  | NotVerified
  | HandlerMessage string

section \<open>The HTTP middleware (middleware.go, protocol version 2)\<close>

text \<open>
  \<open>http.Header\<close> is a \<open>map[string][]string\<close>; \<open>Get\<close> returns the first value stored
  under the key, and the empty string when there is none.  Header names stand for
  their canonical form.
\<close>

type_synonym Header = "string \<rightharpoonup> string list"

definition Header_Get :: "Header \<Rightarrow> string \<Rightarrow> string" where
  "Header_Get h k = (case h k of None \<Rightarrow> [] | Some [] \<Rightarrow> [] | Some (v # _) \<Rightarrow> v)"

record Request =
  r_Path :: string
  r_Header :: Header
  r_Context :: Context

definition WithContext :: "Request \<Rightarrow> Context \<Rightarrow> Request" where
  "WithContext r ctx = r\<lparr>r_Context := ctx\<rparr>"

definition HeaderPaymentSignature :: string where
  "HeaderPaymentSignature = ''PAYMENT-SIGNATURE''"

definition HeaderPaymentResponse :: string where
  "HeaderPaymentResponse = ''PAYMENT-RESPONSE''"

definition HeaderPaymentRequired :: string where
  "HeaderPaymentRequired = ''PAYMENT-REQUIRED''"

definition HeaderLegacyPayment :: string where
  "HeaderLegacyPayment = ''X-PAYMENT''"

definition HeaderLegacyPaymentResponse :: string where
  "HeaderLegacyPaymentResponse = ''X-PAYMENT-RESPONSE''"

text \<open>
  What the middleware does is the sequence of its calls: on the verifier, on the response
  writer \<open>w\<close> (\<open>w.Header().Set\<close>, \<open>w.WriteHeader\<close>, writes of a body), and on the wrapped
  handler \<open>next\<close>.  \<open>Panic\<close> is a nil dereference.  The wrapped handler is given by the
  calls it makes on \<open>w\<close> for a request; \<open>ServeHTTP r calls\<close> is the call
  \<open>next.ServeHTTP(w, r)\<close> during which the handler made \<open>calls\<close>.
\<close>

datatype body =
    HTMLBody string
  | ErrorBody message
  | RequiredBody PaymentRequiredResponse
  | LegacyRequiredBody V1_PaymentRequiredResponse

datatype writer_call =
    HeaderSet string string
  | WriteHeader nat
  | WriteBody body

datatype http_event =
    CallVerify
  | CallSettle
  | OnWriter writer_call
  | ServeHTTP Request "writer_call list"
  | Panic

type_synonym http_handler = "Request \<Rightarrow> writer_call list"

definition StatusPaymentRequired :: nat where
  "StatusPaymentRequired = 402"

definition StatusBadRequest :: nat where
  "StatusBadRequest = 400"

definition StatusInternalServerError :: nat where
  "StatusInternalServerError = 500"

definition browserIndicators :: "string list" where
  "browserIndicators =
     [''Mozilla/'', ''Chrome/'', ''Safari/'', ''Firefox/'', ''Edge/'', ''Opera/'']"

definition isBrowserRequest :: "Request \<Rightarrow> bool" where
  "isBrowserRequest r =
     (let userAgent = Header_Get (r_Header r) ''User-Agent''
      in if userAgent = [] then False
         else list_ex (\<lambda>indicator. strings_Contains userAgent indicator) browserIndicators)"

definition buildRequirementsFromRule :: "PricingRule \<Rightarrow> PaymentRequirements option" where
  "buildRequirementsFromRule rule =
     (case rule_AcceptedTokens rule of
        [] \<Rightarrow> None
      | token # _ \<Rightarrow>
          Some \<lparr>req_Scheme = ''exact'',
                req_Network = tok_Network token,
                req_Amount = rule_Amount rule,
                req_Asset = tok_AssetContract token,
                req_PayTo = tok_Recipient token,
                req_MaxTimeoutSeconds = 0,
                req_Extra = None\<rparr>)"

definition sendPaymentRequired ::
  "stdlib \<Rightarrow> Request \<Rightarrow> PricingRule \<Rightarrow> Config \<Rightarrow> writer_call list" where
  "sendPaymentRequired L r rule cfg =
     (if cfg_CustomPaywallHTML cfg \<noteq> [] \<and> isBrowserRequest r then
        [HeaderSet ''Content-Type'' ''text/html; charset=utf-8'',
         WriteHeader StatusPaymentRequired,
         WriteBody (HTMLBody (cfg_CustomPaywallHTML cfg))]
      else
        (let accepts =
               map (\<lambda>token.
                  \<lparr>req_Scheme = ''exact'',
                   req_Network = tok_Network token,
                   req_Amount = rule_Amount rule,
                   req_Asset = tok_AssetContract token,
                   req_PayTo = tok_Recipient token,
                   req_MaxTimeoutSeconds = lib_seconds L (cfg_ValidityDuration cfg),
                   req_Extra = Some [(''name'', JString (tok_TokenName token)),
                                     (''version'', JString ''2'')]\<rparr>)
                 (rule_AcceptedTokens rule);
             response = \<lparr>prr_X402Version = 2, prr_Error = ''Payment required'',
                         prr_Accepts = accepts\<rparr>
         in (case lib_marshalRequired L response of
               Some responseJSON \<Rightarrow> [HeaderSet HeaderPaymentRequired (lib_b64encode L responseJSON)]
             | None \<Rightarrow> [])
            @ [HeaderSet ''Content-Type'' ''application/json'',
               WriteHeader StatusPaymentRequired,
               WriteBody (RequiredBody response)]))"

definition sendError :: "nat \<Rightarrow> message \<Rightarrow> writer_call list" where
  "sendError statusCode msg =
     [HeaderSet ''Content-Type'' ''application/json'',
      WriteHeader statusCode,
      WriteBody (ErrorBody msg)]"

definition parsePaymentPayload :: "stdlib \<Rightarrow> string \<Rightarrow> decode_error + PaymentPayload" where
  "parsePaymentPayload L header =
     (case lib_b64decode L header of
        None \<Rightarrow> Inl Base64Failed
      | Some payloadBytes \<Rightarrow>
         (case lib_unmarshalPayload L payloadBytes of
            None \<Rightarrow> Inl JSONFailed
          | Some payload \<Rightarrow>
              if pay_X402Version payload < 2 then Inl (VersionTooLow (pay_X402Version payload))
              else if pay_Payload payload = None then Inl PayloadRequired
              else Inr payload))"

definition parseLegacyPayment ::
  "stdlib \<Rightarrow> string \<Rightarrow> PaymentRequirements option \<Rightarrow> decode_error + PaymentPayload" where
  "parseLegacyPayment L header requirements =
     (case lib_b64decode L header of
        None \<Rightarrow> Inl Base64Failed
      | Some payloadBytes \<Rightarrow>
         (case lib_unmarshalLegacy L payloadBytes of
            None \<Rightarrow> Inl JSONFailed
          | Some legacy \<Rightarrow>
              if leg_X402Version legacy = 0 then Inl VersionRequired
              else if leg_Scheme legacy = [] then Inl SchemeRequired
              else if leg_Network legacy = [] then Inl NetworkRequired
              else if leg_Payload legacy = None then Inl PayloadRequired
              else
                (let accepted0 = \<lparr>req_Scheme = leg_Scheme legacy,
                                   req_Network = leg_Network legacy,
                                   req_Amount = [], req_Asset = [], req_PayTo = [],
                                   req_MaxTimeoutSeconds = 0, req_Extra = None\<rparr>;
                     accepted =
                       (case requirements of
                          None \<Rightarrow> accepted0
                        | Some rq \<Rightarrow> accepted0\<lparr>req_Amount := req_Amount rq,
                                               req_Asset := req_Asset rq,
                                               req_PayTo := req_PayTo rq\<rparr>)
                 in Inr \<lparr>pay_X402Version = leg_X402Version legacy,
                         pay_Accepted = accepted,
                         pay_Payload = leg_Payload legacy,
                         pay_Extensions = None\<rparr>)))"

text \<open>
  The closure \<open>PaymentMiddleware(cfg)(next)\<close> serving request \<open>r\<close>, in the source's
  order.  Its first two steps are named: \<open>detectVersion\<close> reads the two headers and
  yields \<open>(paymentHeader, isV2)\<close>; \<open>parseHeader\<close> picks the decoder by \<open>isV2\<close>.
  \<open>MatchEndpoint\<close> never returns a nil rule with \<open>true\<close>; the branch reading a nil
  rule is the panic Go would raise there, as is the read of \<open>requirements.Network\<close>
  through a nil pointer.
\<close>

definition detectVersion :: "Request \<Rightarrow> string \<times> bool" where
  "detectVersion r =
     (let paymentHeader = Header_Get (r_Header r) HeaderPaymentSignature
      in if paymentHeader = [] then (Header_Get (r_Header r) HeaderLegacyPayment, False)
         else (paymentHeader, True))"

definition parseHeader ::
  "stdlib \<Rightarrow> bool \<Rightarrow> string \<Rightarrow> PaymentRequirements option \<Rightarrow> decode_error + PaymentPayload" where
  "parseHeader L isV2 paymentHeader requirements =
     (if isV2 then parsePaymentPayload L paymentHeader
      else parseLegacyPayment L paymentHeader requirements)"

definition newPaymentContext ::
  "VerificationResult \<Rightarrow> string \<Rightarrow> SettlementResult \<Rightarrow> PaymentContext" where
  "newPaymentContext verifyResult network settlementResult =
     \<lparr>pc_Verified = True,
      pc_PayerAddress = ver_PayerAddress verifyResult,
      pc_Amount = ver_Amount verifyResult,
      pc_TokenSymbol = ver_TokenSymbol verifyResult,
      pc_Network = network,
      pc_TransactionHash = stl_TransactionHash settlementResult,
      pc_SettledAt = stl_SettledAt settlementResult\<rparr>"

definition newPaymentResponse :: "SettlementResult \<Rightarrow> PaymentResponse" where
  "newPaymentResponse settlementResult =
     \<lparr>rsp_Success = True,
      rsp_Transaction = stl_TransactionHash settlementResult,
      rsp_Network = stl_Network settlementResult,
      rsp_Payer = stl_PayerAddress settlementResult,
      rsp_ErrorReason = []\<rparr>"

definition PaymentMiddleware :: "stdlib \<Rightarrow> Config \<Rightarrow> http_handler \<Rightarrow> Request \<Rightarrow> http_event list" where
  "PaymentMiddleware L cfg next r =
     (let ctx = r_Context r;
          (ruleptr, requiresPayment) = MatchEndpoint (lib_glob L) cfg (r_Path r)
      in if \<not> requiresPayment then [ServeHTTP r (next r)]
         else case ruleptr of
           None \<Rightarrow> [Panic]
         | Some rule \<Rightarrow>
            (let (paymentHeader, isV2) = detectVersion r
             in if paymentHeader = [] then map OnWriter (sendPaymentRequired L r rule cfg)
                else
                 (let requirements = buildRequirementsFromRule rule
                  in case parseHeader L isV2 paymentHeader requirements of
                       Inl err \<Rightarrow> map OnWriter (sendError StatusBadRequest (InvalidPaymentHeader err))
                     | Inr payload \<Rightarrow>
                        CallVerify #
                        (case cv_Verify (cfg_Verifier cfg) ctx payload requirements of
                           Inl err \<Rightarrow>
                             map OnWriter
                               (sendError StatusInternalServerError (VerificationError err))
                         | Inr verifyResult \<Rightarrow>
                            if \<not> ver_Valid verifyResult then
                              map OnWriter (sendPaymentRequired L r rule cfg)
                            else
                             CallSettle #
                             (case cv_Settle (cfg_Verifier cfg) ctx payload requirements of
                                Inl err \<Rightarrow>
                                  map OnWriter
                                    (sendError StatusInternalServerError (SettlementError err))
                              | Inr settlementResult \<Rightarrow>
                                 (case requirements of
                                    None \<Rightarrow> [Panic]
                                  | Some rq \<Rightarrow>
                                     (let paymentCtx =
                                            newPaymentContext verifyResult (req_Network rq)
                                              settlementResult;
                                          ctx' = WithValue_PaymentContextKey ctx paymentCtx;
                                          paymentResponse = newPaymentResponse settlementResult;
                                          r' = WithContext r ctx'
                                      in (case lib_marshalResponse L paymentResponse of
                                            Some responseJSON \<Rightarrow>
                                              [OnWriter
                                                 (HeaderSet
                                                    (if isV2 then HeaderPaymentResponse
                                                     else HeaderLegacyPaymentResponse)
                                                    (lib_b64encode L responseJSON))]
                                          | None \<Rightarrow> [])
                                         @ [ServeHTTP r' (next r')])))))))"

text \<open>\<open>GetPaymentFromContext\<close> and \<open>RequirePayment\<close> of the HTTP package.\<close>

definition GetPaymentFromContext :: "Context \<Rightarrow> PaymentContext option \<times> bool" where
  "GetPaymentFromContext ctx =
     (case ctx_payment ctx of
        NoValue \<Rightarrow> (None, False)
      | NilPointer \<Rightarrow> (None, True)
      | Pointer payment \<Rightarrow> (Some payment, True))"

datatype ('e, 'a) outcome = Returned 'a | Failed 'e | Panicked

definition RequirePayment :: "Context \<Rightarrow> (message, PaymentContext) outcome" where
  "RequirePayment ctx =
     (let (payment, ok) = GetPaymentFromContext ctx
      in if \<not> ok then Failed ContextNotFound
         else case payment of
           None \<Rightarrow> Panicked
         | Some p \<Rightarrow> if \<not> pc_Verified p then Failed NotVerified else Returned p)"

section \<open>The gRPC interceptors (grpc/metadata.go, grpc/interceptor.go, grpc/stream.go)\<close>

datatype Code =
    OK | Canceled | Unknown | InvalidArgument | DeadlineExceeded | NotFound
  | AlreadyExists | PermissionDenied | ResourceExhausted | FailedPrecondition
  | Aborted | OutOfRange | Unimplemented | Internal | Unavailable | DataLoss
  | Unauthenticated

text \<open>An \<open>error\<close>: a gRPC status error, or any other error a handler returns.\<close>

datatype error = Status Code message | OtherError string

definition MetadataKeyPaymentSignature :: string where
  "MetadataKeyPaymentSignature = ''payment-signature''"

definition MetadataKeyPaymentResponse :: string where
  "MetadataKeyPaymentResponse = ''payment-response''"

definition MetadataKeyPaymentRequired :: string where
  "MetadataKeyPaymentRequired = ''payment-required''"

definition MetadataKeyLegacyPayment :: string where
  "MetadataKeyLegacyPayment = ''x402-payment''"

definition MetadataKeyLegacyPaymentRequirements :: string where
  "MetadataKeyLegacyPaymentRequirements = ''x402-payment-requirements''"

definition MetadataKeyLegacyPaymentResponse :: string where
  "MetadataKeyLegacyPaymentResponse = ''x402-payment-response''"

definition EncodePaymentRequirements :: "stdlib \<Rightarrow> PaymentRequirements list \<Rightarrow> string option" where
  "EncodePaymentRequirements L accepts =
     (let response = \<lparr>prr_X402Version = 2, prr_Error = ''payment required'',
                       prr_Accepts = accepts\<rparr>
      in case lib_marshalRequired L response of
           None \<Rightarrow> None
         | Some jsonBytes \<Rightarrow> Some (lib_b64encode L jsonBytes))"

definition DecodePaymentPayload :: "stdlib \<Rightarrow> string \<Rightarrow> decode_error + PaymentPayload" where
  "DecodePaymentPayload L encoded =
     (case lib_b64decode L encoded of
        None \<Rightarrow> Inl Base64Failed
      | Some jsonBytes \<Rightarrow>
         (case lib_unmarshalPayload L jsonBytes of
            None \<Rightarrow> Inl JSONFailed
          | Some payload \<Rightarrow>
              if pay_Payload payload = None then Inl PayloadRequired
              else Inr payload))"

definition DecodeLegacyPayment :: "stdlib \<Rightarrow> string \<Rightarrow> decode_error + PaymentPayload" where
  "DecodeLegacyPayment L encoded =
     (case lib_b64decode L encoded of
        None \<Rightarrow> Inl Base64Failed
      | Some jsonBytes \<Rightarrow>
         (case lib_unmarshalLegacy L jsonBytes of
            None \<Rightarrow> Inl JSONFailed
          | Some legacy \<Rightarrow>
              if leg_X402Version legacy = 0 then Inl VersionRequired
              else if leg_Scheme legacy = [] then Inl SchemeRequired
              else if leg_Network legacy = [] then Inl NetworkRequired
              else if leg_Payload legacy = None then Inl PayloadRequired
              else Inr \<lparr>pay_X402Version = leg_X402Version legacy,
                        pay_Accepted =
                          \<lparr>req_Scheme = leg_Scheme legacy,
                           req_Network = leg_Network legacy,
                           req_Amount = [], req_Asset = [], req_PayTo = [],
                           req_MaxTimeoutSeconds = 0, req_Extra = None\<rparr>,
                        pay_Payload = leg_Payload legacy,
                        pay_Extensions = None\<rparr>))"

definition EncodePaymentResponse :: "stdlib \<Rightarrow> PaymentResponse \<Rightarrow> string option" where
  "EncodePaymentResponse L response =
     (case lib_marshalResponse L response of
        None \<Rightarrow> None
      | Some jsonBytes \<Rightarrow> Some (lib_b64encode L jsonBytes))"

text \<open>
  \<open>ExtractPaymentFromMetadata\<close> returns \<open>(payload, isV2, err)\<close>: the decoder's result
  and the flag.
\<close>

definition ExtractPaymentFromMetadata ::
  "stdlib \<Rightarrow> MD \<Rightarrow> (decode_error + PaymentPayload) \<times> bool" where
  "ExtractPaymentFromMetadata L md =
     (case MD_Get md MetadataKeyPaymentSignature of
        v # _ \<Rightarrow> (DecodePaymentPayload L v, True)
      | [] \<Rightarrow>
         (case MD_Get md MetadataKeyLegacyPayment of
            v # _ \<Rightarrow> (DecodeLegacyPayment L v, False)
          | [] \<Rightarrow> (Inl NoPaymentFound, False)))"

definition BuildPaymentRequirements :: "PricingRule \<Rightarrow> PaymentRequirements list" where
  "BuildPaymentRequirements rule =
     map (\<lambda>token.
        \<lparr>req_Scheme = ''exact'',
         req_Network = tok_Network token,
         req_Amount = rule_Amount rule,
         req_Asset = tok_AssetContract token,
         req_PayTo = tok_Recipient token,
         req_MaxTimeoutSeconds = 0,
         req_Extra = None\<rparr>)
       (rule_AcceptedTokens rule)"

definition grpc_sendPaymentRequired :: "stdlib \<Rightarrow> PricingRule \<Rightarrow> error" where
  "grpc_sendPaymentRequired L rule =
     (let accepts = BuildPaymentRequirements rule
      in case EncodePaymentRequirements L accepts of
           None \<Rightarrow> Status Internal EncodeRequirementsFailed
         | Some encoded \<Rightarrow> Status ResourceExhausted (EncodedRequirements encoded))"

text \<open>
  The calls an interceptor makes: on the verifier, on the wrapped handler (with the
  context it is given), and \<open>SetTrailer\<close>.
\<close>

datatype grpc_event =
    GVerify
  | GSettle
  | GHandler Context
  | GSetTrailer MD

text \<open>
  The closure \<open>UnaryServerInterceptor(cfg)\<close> on \<open>(ctx, req, info.FullMethod, handler)\<close>.
  It returns \<open>(resp, err)\<close>: \<open>Returned resp\<close> is \<open>(resp, nil)\<close> and \<open>Failed err\<close> is
  \<open>(nil, err)\<close>.
\<close>

definition UnaryServerInterceptor ::
  "stdlib \<Rightarrow> Config \<Rightarrow> Context \<Rightarrow> 'req \<Rightarrow> string \<Rightarrow> (Context \<Rightarrow> 'req \<Rightarrow> error + 'resp)
     \<Rightarrow> (error, 'resp) outcome \<times> grpc_event list" where
  "UnaryServerInterceptor L cfg ctx req fullMethod handler =
     (let (ruleptr, requiresPayment) = MatchMethod (lib_glob L) cfg fullMethod
      in if \<not> requiresPayment then
           (case handler ctx req of Inl e \<Rightarrow> Failed e | Inr resp \<Rightarrow> Returned resp,
            [GHandler ctx])
         else case ruleptr of
           None \<Rightarrow> (Panicked, [])
         | Some rule \<Rightarrow>
            (case ctx_incoming ctx of
               None \<Rightarrow> (Failed (grpc_sendPaymentRequired L rule), [])
             | Some md \<Rightarrow>
                (let (extracted, isV2) = ExtractPaymentFromMetadata L md
                 in case extracted of
                      Inl err \<Rightarrow> (Failed (grpc_sendPaymentRequired L rule), [])
                    | Inr payload \<Rightarrow>
                       (case BuildPaymentRequirements rule of
                          [] \<Rightarrow> (Failed (Status Internal NoRequirementsConfigured), [])
                        | requirements # _ \<Rightarrow>
                           (case cv_Verify (cfg_Verifier cfg) ctx payload (Some requirements) of
                              Inl err \<Rightarrow> (Failed (Status Internal (VerificationError err)), [GVerify])
                            | Inr verifyResult \<Rightarrow>
                               if \<not> ver_Valid verifyResult then
                                 (Failed (grpc_sendPaymentRequired L rule), [GVerify])
                               else
                                (case cv_Settle (cfg_Verifier cfg) ctx payload (Some requirements) of
                                   Inl err \<Rightarrow>
                                     (Failed (Status Unavailable (SettlementError err)),
                                      [GVerify, GSettle])
                                 | Inr settlementResult \<Rightarrow>
                                    (let paymentCtx =
                                           newPaymentContext verifyResult (req_Network requirements)
                                             settlementResult;
                                         ctx' = WithValue_PaymentContextKey ctx paymentCtx
                                     in case handler ctx' req of
                                          Inl err \<Rightarrow> (Failed err, [GVerify, GSettle, GHandler ctx'])
                                        | Inr resp \<Rightarrow>
                                           (let paymentResponse =
                                                  newPaymentResponse settlementResult
                                            in (Returned resp,
                                                [GVerify, GSettle, GHandler ctx'] @
                                                (case EncodePaymentResponse L paymentResponse of
                                                   None \<Rightarrow> []
                                                 | Some encoded \<Rightarrow>
                                                    [GSetTrailer
                                                       (MD_Pairs
                                                          (if isV2 then MetadataKeyPaymentResponse
                                                           else MetadataKeyLegacyPaymentResponse)
                                                          encoded)]))))))))))"

text \<open>
  The closure \<open>StreamServerInterceptor(cfg)\<close>.  The stream handler runs on the wrapped
  stream, whose \<open>Context()\<close> is the context given here; it returns an error or nil
  (\<open>None\<close>).  The interceptor returns the same.
\<close>

definition StreamServerInterceptor ::
  "stdlib \<Rightarrow> Config \<Rightarrow> Context \<Rightarrow> string \<Rightarrow> (Context \<Rightarrow> error option)
     \<Rightarrow> (error, unit) outcome \<times> grpc_event list" where
  "StreamServerInterceptor L cfg ctx fullMethod handler =
     (let (ruleptr, requiresPayment) = MatchMethod (lib_glob L) cfg fullMethod
      in if \<not> requiresPayment then
           (case handler ctx of Some e \<Rightarrow> Failed e | None \<Rightarrow> Returned (),
            [GHandler ctx])
         else case ruleptr of
           None \<Rightarrow> (Panicked, [])
         | Some rule \<Rightarrow>
            (case ctx_incoming ctx of
               None \<Rightarrow> (Failed (grpc_sendPaymentRequired L rule), [])
             | Some md \<Rightarrow>
                (let (extracted, isV2) = ExtractPaymentFromMetadata L md
                 in case extracted of
                      Inl err \<Rightarrow> (Failed (grpc_sendPaymentRequired L rule), [])
                    | Inr payload \<Rightarrow>
                       (case BuildPaymentRequirements rule of
                          [] \<Rightarrow> (Failed (Status Internal NoRequirementsConfigured), [])
                        | requirements # _ \<Rightarrow>
                           (case cv_Verify (cfg_Verifier cfg) ctx payload (Some requirements) of
                              Inl err \<Rightarrow> (Failed (Status Internal (VerificationError err)), [GVerify])
                            | Inr verifyResult \<Rightarrow>
                               if \<not> ver_Valid verifyResult then
                                 (Failed (grpc_sendPaymentRequired L rule), [GVerify])
                               else
                                (case cv_Settle (cfg_Verifier cfg) ctx payload (Some requirements) of
                                   Inl err \<Rightarrow>
                                     (Failed (Status Unavailable (SettlementError err)),
                                      [GVerify, GSettle])
                                 | Inr settlementResult \<Rightarrow>
                                    (let paymentCtx =
                                           newPaymentContext verifyResult (req_Network requirements)
                                             settlementResult;
                                         ctx' = WithValue_PaymentContextKey ctx paymentCtx
                                     in case handler ctx' of
                                          Some handlerErr \<Rightarrow>
                                            (Failed handlerErr, [GVerify, GSettle, GHandler ctx'])
                                        | None \<Rightarrow>
                                           (let paymentResponse =
                                                  newPaymentResponse settlementResult
                                            in (Returned (),
                                                [GVerify, GSettle, GHandler ctx'] @
                                                (case EncodePaymentResponse L paymentResponse of
                                                   None \<Rightarrow> []
                                                 | Some encoded \<Rightarrow>
                                                    [GSetTrailer
                                                       (MD_Pairs
                                                          (if isV2 then MetadataKeyPaymentResponse
                                                           else MetadataKeyLegacyPaymentResponse)
                                                          encoded)]))))))))))"

definition grpc_RequirePayment :: "Context \<Rightarrow> (error, PaymentContext) outcome" where
  "grpc_RequirePayment ctx =
     (let (payment, ok) = GetPaymentFromContext ctx
      in if \<not> ok then Failed (Status ResourceExhausted ContextNotFound)
         else case payment of
           None \<Rightarrow> Panicked
         | Some p \<Rightarrow>
             if \<not> pc_Verified p then Failed (Status ResourceExhausted NotVerified)
             else Returned p)"

section \<open>The grpc-gateway bridge (grpcgateway.go)\<close>

text \<open>
  The annotator \<open>WithPaymentMetadata\<close> installs: from the request's context to the
  metadata handed to the gRPC side.
\<close>

definition WithPaymentMetadata :: "Context \<Rightarrow> MD" where
  "WithPaymentMetadata ctx =
     (let md = Map.empty;
          (payment, ok) = GetPaymentFromContext ctx
      in if \<not> ok then md
         else case payment of
           None \<Rightarrow> md
         | Some p \<Rightarrow>
            if pc_Verified p then
              (let md1 = MD_Set md ''x-payment-verified'' ''true'';
                   md2 = MD_Set md1 ''x-payment-payer'' (pc_PayerAddress p);
                   md3 = MD_Set md2 ''x-payment-amount'' (pc_Amount p);
                   md4 = MD_Set md3 ''x-payment-network'' (pc_Network p);
                   md5 = (if pc_TokenSymbol p \<noteq> []
                          then MD_Set md4 ''x-payment-token'' (pc_TokenSymbol p) else md4);
                   md6 = (if pc_TransactionHash p \<noteq> []
                          then MD_Set md5 ''x-payment-tx-hash'' (pc_TransactionHash p) else md5)
               in md6)
            else md)"

definition GetPaymentFromGRPCContext :: "Context \<Rightarrow> PaymentContext option \<times> bool" where
  "GetPaymentFromGRPCContext ctx =
     (case ctx_incoming ctx of
        None \<Rightarrow> (None, False)
      | Some md \<Rightarrow>
         (case MD_Get md ''x-payment-verified'' of
            [] \<Rightarrow> (None, False)
          | v # _ \<Rightarrow>
             if v \<noteq> ''true'' then (None, False)
             else
              (let payment0 = \<lparr>pc_Verified = True, pc_PayerAddress = [], pc_Amount = [],
                               pc_TokenSymbol = [], pc_Network = [],
                               pc_TransactionHash = [], pc_SettledAt = zeroTime\<rparr>;
                   payment1 = (case MD_Get md ''x-payment-payer'' of
                                 x # _ \<Rightarrow> payment0\<lparr>pc_PayerAddress := x\<rparr> | [] \<Rightarrow> payment0);
                   payment2 = (case MD_Get md ''x-payment-amount'' of
                                 x # _ \<Rightarrow> payment1\<lparr>pc_Amount := x\<rparr> | [] \<Rightarrow> payment1);
                   payment3 = (case MD_Get md ''x-payment-network'' of
                                 x # _ \<Rightarrow> payment2\<lparr>pc_Network := x\<rparr> | [] \<Rightarrow> payment2);
                   payment4 = (case MD_Get md ''x-payment-token'' of
                                 x # _ \<Rightarrow> payment3\<lparr>pc_TokenSymbol := x\<rparr> | [] \<Rightarrow> payment3);
                   payment5 = (case MD_Get md ''x-payment-tx-hash'' of
                                 x # _ \<Rightarrow> payment4\<lparr>pc_TransactionHash := x\<rparr> | [] \<Rightarrow> payment4)
               in (Some payment5, True))))"

text \<open>
  \<open>WithPaymentMetadata\<close> installs its function with \<open>runtime.WithMetadata\<close>, as a
  metadata annotator of the gateway's mux; \<open>GetPaymentFromGRPCContext\<close> runs in the gRPC
  handler, on the incoming metadata of the handler's context.  What lies between the
  two is the gateway and the transport, which are not code of this package: the mux
  joins the annotator's map after the metadata it has built from the request's headers
  (by default a header \<open>Grpc-Metadata-K\<close> under the key \<open>k\<close>).  The reader looks at six
  keys only, so all that matters of the delivery is what the incoming metadata carries
  under them: \<open>deliveredAsEmitted\<close> says that it carries exactly the values the
  annotator emitted, and \<open>forwardsNoPaymentMetadata\<close> that the request's own metadata
  has no value under any of the six keys.
\<close>

definition paymentMetadataKeys :: "string list" where
  "paymentMetadataKeys =
     [''x-payment-verified'', ''x-payment-payer'', ''x-payment-amount'',
      ''x-payment-network'', ''x-payment-token'', ''x-payment-tx-hash'']"

definition deliveredAsEmitted :: "MD \<Rightarrow> MD \<Rightarrow> bool" where
  "deliveredAsEmitted emitted incoming =
     list_all (\<lambda>k. MD_Get incoming k = MD_Get emitted k) paymentMetadataKeys"

definition forwardsNoPaymentMetadata :: "MD \<Rightarrow> bool" where
  "forwardsNoPaymentMetadata forwarded =
     list_all (\<lambda>k. MD_Get forwarded k = []) paymentMetadataKeys"

section \<open>The version-1 package (middleware.go, grpc/ of the repository root)\<close>

text \<open>
  The standard-library calls of the version-1 package: as above, with \<open>json.Unmarshal\<close>
  into a \<open>Payment\<close>, \<open>json.Marshal\<close> of the version-1 structs, and
  \<open>time.Now().Add(d).Unix()\<close> for a duration \<open>d\<close>.
\<close>

record stdlib_v1 =
  lib1_glob :: glob_matcher
  lib1_b64decode :: "string \<Rightarrow> string option"
  lib1_b64encode :: "string \<Rightarrow> string"
  lib1_unmarshalPayment :: "string \<Rightarrow> Payment option"
  lib1_marshalResponse :: "V1_PaymentResponse \<Rightarrow> string option"
  lib1_marshalRequired :: "V1_PaymentRequiredResponse \<Rightarrow> string option"
  lib1_validBefore :: "int \<Rightarrow> int"

record V1_ChainVerifier =
  cv1_Verify :: "Context \<Rightarrow> Payment \<Rightarrow> string + VerificationResult"
  cv1_Settle :: "Context \<Rightarrow> Payment \<Rightarrow> string + V1_SettlementResult"

record V1_Config =
  cfg1_Verifier :: V1_ChainVerifier
  cfg1_EndpointPricing :: pricing_table
  cfg1_MethodPricing :: pricing_table
  cfg1_DefaultPricing :: "PricingRule option"
  cfg1_ValidityDuration :: int
  cfg1_SkipPaths :: "string list"
  cfg1_SkipMethods :: "string list"
  cfg1_CustomPaywallHTML :: string

definition V1_MatchEndpoint ::
  "glob_matcher \<Rightarrow> V1_Config \<Rightarrow> string \<Rightarrow> PricingRule option \<times> bool" where
  "V1_MatchEndpoint glob c requestPath =
     resolve glob (cfg1_SkipPaths c) (cfg1_EndpointPricing c) (cfg1_DefaultPricing c) requestPath"

definition V1_MatchMethod ::
  "glob_matcher \<Rightarrow> V1_Config \<Rightarrow> string \<Rightarrow> PricingRule option \<times> bool" where
  "V1_MatchMethod glob c fullMethod =
     resolve glob (cfg1_SkipMethods c) (cfg1_MethodPricing c) (cfg1_DefaultPricing c) fullMethod"

definition findSubstring :: "string \<Rightarrow> string \<Rightarrow> bool" where
  "findSubstring s substr =
     list_ex (\<lambda>i. take (length substr) (drop i s) = substr)
       [0 ..< Suc (length s - length substr)]"

definition contains :: "string \<Rightarrow> string \<Rightarrow> bool" where
  "contains s substr = (length s \<ge> length substr \<and> findSubstring s substr)"

definition V1_isBrowserRequest :: "Request \<Rightarrow> bool" where
  "V1_isBrowserRequest r =
     (let userAgent = Header_Get (r_Header r) ''User-Agent''
      in if userAgent = [] then False
         else list_ex (\<lambda>indicator. contains userAgent indicator) browserIndicators)"

definition V1_requirementsOf ::
  "stdlib_v1 \<Rightarrow> PricingRule \<Rightarrow> string \<Rightarrow> int \<Rightarrow> V1_PaymentRequirements list" where
  "V1_requirementsOf L rule resource validityDuration =
     (let validBefore = lib1_validBefore L validityDuration
      in map (\<lambda>token.
            \<lparr>rq1_X402Version = 1,
             rq1_Scheme = ''exact'',
             rq1_Network = tok_Network token,
             rq1_MaxAmountRequired = rule_Amount rule,
             rq1_Resource = resource,
             rq1_Description = rule_Description rule,
             rq1_MimeType = rule_MimeType rule,
             rq1_Recipient = tok_Recipient token,
             rq1_ValidBefore = validBefore,
             rq1_AssetContract = tok_AssetContract token,
             rq1_Metadata = \<lparr>meta_TokenSymbol = tok_Symbol token,
                              meta_TokenName = tok_TokenName token,
                              meta_TokenDecimals = tok_TokenDecimals token\<rparr>,
             rq1_OutputSchema = rule_OutputSchema rule\<rparr>)
           (rule_AcceptedTokens rule))"

definition V1_sendPaymentRequired ::
  "stdlib_v1 \<Rightarrow> Request \<Rightarrow> PricingRule \<Rightarrow> V1_Config \<Rightarrow> writer_call list" where
  "V1_sendPaymentRequired L r rule cfg =
     (let isBrowser = V1_isBrowserRequest r
      in if cfg1_CustomPaywallHTML cfg \<noteq> [] \<and> isBrowser then
           [HeaderSet ''Content-Type'' ''text/html; charset=utf-8'',
            WriteHeader StatusPaymentRequired,
            WriteBody (HTMLBody (cfg1_CustomPaywallHTML cfg))]
         else
           (let requirements =
                  V1_requirementsOf L rule (r_Path r) (cfg1_ValidityDuration cfg);
                response = \<lparr>prr1_Error = ''Payment required'',
                            prr1_PaymentRequirements = requirements\<rparr>
            in [HeaderSet ''Content-Type'' ''application/json'',
                WriteHeader StatusPaymentRequired,
                WriteBody (LegacyRequiredBody response)]))"

text \<open>\<open>parsePayment\<close> (HTTP) and \<open>DecodePayment\<close> (gRPC) have the same body.\<close>

definition parsePayment :: "stdlib_v1 \<Rightarrow> string \<Rightarrow> decode_error + Payment" where
  "parsePayment L xPaymentHeader =
     (case lib1_b64decode L xPaymentHeader of
        None \<Rightarrow> Inl Base64Failed
      | Some payloadBytes \<Rightarrow>
         (case lib1_unmarshalPayment L payloadBytes of
            None \<Rightarrow> Inl JSONFailed
          | Some payment \<Rightarrow>
              if p1_X402Version payment = 0 then Inl VersionRequired
              else if p1_Scheme payment = [] then Inl SchemeRequired
              else if p1_Network payment = [] then Inl NetworkRequired
              else if p1_Payload payment = None then Inl PayloadRequired
              else Inr payment))"

definition DecodePayment :: "stdlib_v1 \<Rightarrow> string \<Rightarrow> decode_error + Payment" where
  "DecodePayment L encoded =
     (case lib1_b64decode L encoded of
        None \<Rightarrow> Inl Base64Failed
      | Some jsonBytes \<Rightarrow>
         (case lib1_unmarshalPayment L jsonBytes of
            None \<Rightarrow> Inl JSONFailed
          | Some payment \<Rightarrow>
              if p1_X402Version payment = 0 then Inl VersionRequired
              else if p1_Scheme payment = [] then Inl SchemeRequired
              else if p1_Network payment = [] then Inl NetworkRequired
              else if p1_Payload payment = None then Inl PayloadRequired
              else Inr payment))"

definition V1_newPaymentContext ::
  "VerificationResult \<Rightarrow> string \<Rightarrow> V1_SettlementResult \<Rightarrow> PaymentContext" where
  "V1_newPaymentContext verifyResult network settlementResult =
     \<lparr>pc_Verified = True,
      pc_PayerAddress = ver_PayerAddress verifyResult,
      pc_Amount = ver_Amount verifyResult,
      pc_TokenSymbol = ver_TokenSymbol verifyResult,
      pc_Network = network,
      pc_TransactionHash = stl1_TransactionHash settlementResult,
      pc_SettledAt = stl1_SettledAt settlementResult\<rparr>"

definition V1_newPaymentResponse :: "V1_SettlementResult \<Rightarrow> V1_PaymentResponse" where
  "V1_newPaymentResponse settlementResult =
     \<lparr>rsp1_TransactionHash = stl1_TransactionHash settlementResult,
      rsp1_Status = stl1_Status settlementResult,
      rsp1_Message = []\<rparr>"

definition V1_PaymentMiddleware ::
  "stdlib_v1 \<Rightarrow> V1_Config \<Rightarrow> http_handler \<Rightarrow> Request \<Rightarrow> http_event list" where
  "V1_PaymentMiddleware L cfg next r =
     (let ctx = r_Context r;
          (ruleptr, requiresPayment) = V1_MatchEndpoint (lib1_glob L) cfg (r_Path r)
      in if \<not> requiresPayment then [ServeHTTP r (next r)]
         else case ruleptr of
           None \<Rightarrow> [Panic]
         | Some rule \<Rightarrow>
            (let xPayment = Header_Get (r_Header r) ''X-PAYMENT''
             in if xPayment = [] then map OnWriter (V1_sendPaymentRequired L r rule cfg)
                else case parsePayment L xPayment of
                  Inl err \<Rightarrow> map OnWriter (sendError StatusBadRequest (InvalidPaymentHeader err))
                | Inr payment \<Rightarrow>
                   CallVerify #
                   (case cv1_Verify (cfg1_Verifier cfg) ctx payment of
                      Inl err \<Rightarrow>
                             map OnWriter
                               (sendError StatusInternalServerError (VerificationError err))
                    | Inr verifyResult \<Rightarrow>
                       if \<not> ver_Valid verifyResult then
                         map OnWriter (V1_sendPaymentRequired L r rule cfg)
                       else
                        CallSettle #
                        (case cv1_Settle (cfg1_Verifier cfg) ctx payment of
                           Inl err \<Rightarrow>
                                  map OnWriter
                                    (sendError StatusInternalServerError (SettlementError err))
                         | Inr settlementResult \<Rightarrow>
                            (let paymentCtx =
                                   V1_newPaymentContext verifyResult (p1_Network payment)
                                     settlementResult;
                                 ctx' = WithValue_PaymentContextKey ctx paymentCtx;
                                 paymentResponse = V1_newPaymentResponse settlementResult;
                                 r' = WithContext r ctx'
                             in (case lib1_marshalResponse L paymentResponse of
                                   Some responseJSON \<Rightarrow>
                                     [OnWriter
                                        (HeaderSet ''X-PAYMENT-RESPONSE''
                                           (lib1_b64encode L responseJSON))]
                                 | None \<Rightarrow> [])
                                @ [ServeHTTP r' (next r')])))))"

definition MetadataKeyPayment :: string where
  "MetadataKeyPayment = ''x402-payment''"

definition V1_MetadataKeyPaymentResponse :: string where
  "V1_MetadataKeyPaymentResponse = ''x402-payment-response''"

definition V1_EncodePaymentRequirements ::
  "stdlib_v1 \<Rightarrow> V1_PaymentRequirements list \<Rightarrow> string option" where
  "V1_EncodePaymentRequirements L requirements =
     (let response = \<lparr>prr1_Error = ''payment required'',
                       prr1_PaymentRequirements = requirements\<rparr>
      in case lib1_marshalRequired L response of
           None \<Rightarrow> None
         | Some jsonBytes \<Rightarrow> Some (lib1_b64encode L jsonBytes))"

definition V1_EncodePaymentResponse :: "stdlib_v1 \<Rightarrow> V1_PaymentResponse \<Rightarrow> string option" where
  "V1_EncodePaymentResponse L response =
     (case lib1_marshalResponse L response of
        None \<Rightarrow> None
      | Some jsonBytes \<Rightarrow> Some (lib1_b64encode L jsonBytes))"

definition V1_BuildPaymentRequirements ::
  "stdlib_v1 \<Rightarrow> PricingRule \<Rightarrow> string \<Rightarrow> int \<Rightarrow> V1_PaymentRequirements list" where
  "V1_BuildPaymentRequirements L rule fullMethod validityDuration =
     V1_requirementsOf L rule fullMethod validityDuration"

definition sendPaymentRequiredWithReason ::
  "stdlib_v1 \<Rightarrow> PricingRule \<Rightarrow> string \<Rightarrow> V1_Config \<Rightarrow> string \<Rightarrow> error" where
  "sendPaymentRequiredWithReason L rule fullMethod cfg reason =
     (let requirements =
            V1_BuildPaymentRequirements L rule fullMethod (cfg1_ValidityDuration cfg)
      in case V1_EncodePaymentRequirements L requirements of
           None \<Rightarrow> Status Internal EncodeRequirementsFailed
         | Some encoded \<Rightarrow> Status ResourceExhausted (EncodedRequirements encoded))"

definition V1_grpc_sendPaymentRequired ::
  "stdlib_v1 \<Rightarrow> PricingRule \<Rightarrow> string \<Rightarrow> V1_Config \<Rightarrow> error" where
  "V1_grpc_sendPaymentRequired L rule fullMethod cfg =
     sendPaymentRequiredWithReason L rule fullMethod cfg []"

definition V1_UnaryServerInterceptor ::
  "stdlib_v1 \<Rightarrow> V1_Config \<Rightarrow> Context \<Rightarrow> 'req \<Rightarrow> string \<Rightarrow> (Context \<Rightarrow> 'req \<Rightarrow> error + 'resp)
     \<Rightarrow> (error, 'resp) outcome \<times> grpc_event list" where
  "V1_UnaryServerInterceptor L cfg ctx req fullMethod handler =
     (let (ruleptr, requiresPayment) = V1_MatchMethod (lib1_glob L) cfg fullMethod
      in if \<not> requiresPayment then
           (case handler ctx req of Inl e \<Rightarrow> Failed e | Inr resp \<Rightarrow> Returned resp,
            [GHandler ctx])
         else case ruleptr of
           None \<Rightarrow> (Panicked, [])
         | Some rule \<Rightarrow>
            (case ctx_incoming ctx of
               None \<Rightarrow> (Failed (V1_grpc_sendPaymentRequired L rule fullMethod cfg), [])
             | Some md \<Rightarrow>
                (case MD_Get md MetadataKeyPayment of
                   [] \<Rightarrow> (Failed (V1_grpc_sendPaymentRequired L rule fullMethod cfg), [])
                 | paymentValue # _ \<Rightarrow>
                    (case DecodePayment L paymentValue of
                       Inl err \<Rightarrow> (Failed (Status InvalidArgument (InvalidPayment err)), [])
                     | Inr payment \<Rightarrow>
                        (case cv1_Verify (cfg1_Verifier cfg) ctx payment of
                           Inl err \<Rightarrow>
                             (Failed (Status Internal (VerificationError err)), [GVerify])
                         | Inr verifyResult \<Rightarrow>
                            if \<not> ver_Valid verifyResult then
                              (Failed (sendPaymentRequiredWithReason L rule fullMethod cfg
                                         (ver_Reason verifyResult)), [GVerify])
                            else
                             (case cv1_Settle (cfg1_Verifier cfg) ctx payment of
                                Inl err \<Rightarrow>
                                  (Failed (Status Unavailable (SettlementError err)),
                                   [GVerify, GSettle])
                              | Inr settlementResult \<Rightarrow>
                                 (let paymentCtx =
                                        V1_newPaymentContext verifyResult (p1_Network payment)
                                          settlementResult;
                                      ctx' = WithValue_PaymentContextKey ctx paymentCtx
                                  in case handler ctx' req of
                                       Inl err \<Rightarrow>
                                         (Failed err, [GVerify, GSettle, GHandler ctx'])
                                     | Inr resp \<Rightarrow>
                                        (let paymentResponse =
                                               V1_newPaymentResponse settlementResult
                                         in (Returned resp,
                                             [GVerify, GSettle, GHandler ctx'] @
                                             (case V1_EncodePaymentResponse L paymentResponse of
                                                None \<Rightarrow> []
                                              | Some encoded \<Rightarrow>
                                                 [GSetTrailer
                                                    (MD_Pairs V1_MetadataKeyPaymentResponse
                                                       encoded)]))))))))))"

definition V1_StreamServerInterceptor ::
  "stdlib_v1 \<Rightarrow> V1_Config \<Rightarrow> Context \<Rightarrow> string \<Rightarrow> (Context \<Rightarrow> error option)
     \<Rightarrow> (error, unit) outcome \<times> grpc_event list" where
  "V1_StreamServerInterceptor L cfg ctx fullMethod handler =
     (let (ruleptr, requiresPayment) = V1_MatchMethod (lib1_glob L) cfg fullMethod
      in if \<not> requiresPayment then
           (case handler ctx of Some e \<Rightarrow> Failed e | None \<Rightarrow> Returned (),
            [GHandler ctx])
         else case ruleptr of
           None \<Rightarrow> (Panicked, [])
         | Some rule \<Rightarrow>
            (case ctx_incoming ctx of
               None \<Rightarrow> (Failed (V1_grpc_sendPaymentRequired L rule fullMethod cfg), [])
             | Some md \<Rightarrow>
                (case MD_Get md MetadataKeyPayment of
                   [] \<Rightarrow> (Failed (V1_grpc_sendPaymentRequired L rule fullMethod cfg), [])
                 | paymentValue # _ \<Rightarrow>
                    (case DecodePayment L paymentValue of
                       Inl err \<Rightarrow> (Failed (Status InvalidArgument (InvalidPayment err)), [])
                     | Inr payment \<Rightarrow>
                        (case cv1_Verify (cfg1_Verifier cfg) ctx payment of
                           Inl err \<Rightarrow>
                             (Failed (Status Internal (VerificationError err)), [GVerify])
                         | Inr verifyResult \<Rightarrow>
                            if \<not> ver_Valid verifyResult then
                              (Failed (sendPaymentRequiredWithReason L rule fullMethod cfg
                                         (ver_Reason verifyResult)), [GVerify])
                            else
                             (case cv1_Settle (cfg1_Verifier cfg) ctx payment of
                                Inl err \<Rightarrow>
                                  (Failed (Status Unavailable (SettlementError err)),
                                   [GVerify, GSettle])
                              | Inr settlementResult \<Rightarrow>
                                 (let paymentCtx =
                                        V1_newPaymentContext verifyResult (p1_Network payment)
                                          settlementResult;
                                      ctx' = WithValue_PaymentContextKey ctx paymentCtx
                                  in case handler ctx' of
                                       Some err \<Rightarrow>
                                         (Failed err, [GVerify, GSettle, GHandler ctx'])
                                     | None \<Rightarrow>
                                        (let paymentResponse =
                                               V1_newPaymentResponse settlementResult
                                         in (Returned (),
                                             [GVerify, GSettle, GHandler ctx'] @
                                             (case V1_EncodePaymentResponse L paymentResponse of
                                                None \<Rightarrow> []
                                              | Some encoded \<Rightarrow>
                                                 [GSetTrailer
                                                    (MD_Pairs V1_MetadataKeyPaymentResponse
                                                       encoded)]))))))))))"

section \<open>Observations and sample inputs\<close>

text \<open>
  \<open>path.Match\<close> on the patterns whose only metacharacters are \<open>*\<close> (any run of
  characters other than \<open>/\<close>) and \<open>?\<close> (one character other than \<open>/\<close>), for names
  of one-byte characters: the instance of the matcher the sample inputs run with.
\<close>

fun globMatch :: "string \<Rightarrow> string \<Rightarrow> bool" where
  "globMatch [] name = (name = [])"
| "globMatch (c # pattern) [] = (c = CHR ''*'' \<and> globMatch pattern [])"
| "globMatch (c # pattern) (x # name) =
     (if c = CHR ''*'' then
        globMatch pattern (x # name) \<or> (x \<noteq> CHR ''/'' \<and> globMatch (c # pattern) name)
      else if c = CHR ''?'' then x \<noteq> CHR ''/'' \<and> globMatch pattern name
      else x = c \<and> globMatch pattern name)"

text \<open>What a trace shows: the calls of the wrapped handler, and the calls on the writer.\<close>

fun handlerRequests :: "http_event list \<Rightarrow> Request list" where
  "handlerRequests [] = []"
| "handlerRequests (ServeHTTP r calls # es) = r # handlerRequests es"
| "handlerRequests (e # es) = handlerRequests es"

fun ownWriterCalls :: "http_event list \<Rightarrow> writer_call list" where
  "ownWriterCalls [] = []"
| "ownWriterCalls (OnWriter c # es) = c # ownWriterCalls es"
| "ownWriterCalls (e # es) = ownWriterCalls es"

fun statusCodes :: "writer_call list \<Rightarrow> nat list" where
  "statusCodes [] = []"
| "statusCodes (WriteHeader code # cs) = code # statusCodes cs"
| "statusCodes (c # cs) = statusCodes cs"

fun headersSet :: "writer_call list \<Rightarrow> (string \<times> string) list" where
  "headersSet [] = []"
| "headersSet (HeaderSet k v # cs) = (k, v) # headersSet cs"
| "headersSet (c # cs) = headersSet cs"

fun handlerContexts :: "grpc_event list \<Rightarrow> Context list" where
  "handlerContexts [] = []"
| "handlerContexts (GHandler ctx # es) = ctx # handlerContexts es"
| "handlerContexts (e # es) = handlerContexts es"

fun trailers :: "grpc_event list \<Rightarrow> MD list" where
  "trailers [] = []"
| "trailers (GSetTrailer md # es) = md # trailers es"
| "trailers (e # es) = trailers es"

text \<open>
  The three ways a pattern matches an identifier.  \<open>claimedMatch\<close> reads them as
  alternatives that each suffice; \<open>patternMatch\<close> reads them in the order \<open>matchPath\<close>
  tests them, where the shell glob is asked only about a pattern that does not end in
  \<open>/*\<close>.
\<close>

definition prefixMatch :: "string \<Rightarrow> string \<Rightarrow> bool" where
  "prefixMatch ident pattern =
     (strings_HasSuffix pattern ''/*'' \<and>
      (ident = strings_TrimSuffix pattern ''/*'' \<or>
       strings_HasPrefix ident (strings_TrimSuffix pattern ''/*'' @ ''/'')))"

definition claimedMatch :: "glob_matcher \<Rightarrow> string \<Rightarrow> string \<Rightarrow> bool" where
  "claimedMatch glob ident pattern =
     (ident = pattern \<or> prefixMatch ident pattern \<or> glob pattern ident)"

definition patternMatch :: "glob_matcher \<Rightarrow> string \<Rightarrow> string \<Rightarrow> bool" where
  "patternMatch glob ident pattern =
     (ident = pattern \<or> prefixMatch ident pattern \<or>
      (\<not> strings_HasSuffix pattern ''/*'' \<and> glob pattern ident))"

text \<open>
  The outcome of resolution for an identifier that is neither skipped nor an exact key,
  under a reading \<open>matches ident pattern\<close> of "the pattern matches the identifier"
  (\<open>claimedMatch glob\<close> or \<open>patternMatch glob\<close>): the rule of a matching pattern that
  no matching pattern exceeds in length, or, when no pattern matches, the default rule
  if there is one.
\<close>

definition longestWildcardOrDefault ::
  "(string \<Rightarrow> string \<Rightarrow> bool) \<Rightarrow> pricing_table \<Rightarrow> PricingRule option \<Rightarrow> string
     \<Rightarrow> PricingRule option \<times> bool \<Rightarrow> bool" where
  "longestWildcardOrDefault matches tbl dflt ident res =
     (if list_ex (\<lambda>(p, r). matches ident p) tbl then
        list_ex (\<lambda>(p, r). res = (Some r, True) \<and> matches ident p \<and>
                   list_all (\<lambda>(q, r'). matches ident q \<longrightarrow> length q \<le> length p) tbl) tbl
      else res = (case dflt of Some d \<Rightarrow> (Some d, True) | None \<Rightarrow> (None, False)))"

text \<open>Sample inputs: a token, two rules, a verifier, a configuration.\<close>

definition sampleToken :: TokenRequirement where
  "sampleToken =
     \<lparr>tok_Network = ''eip155:84532'', tok_AssetContract = ''0x036C'', tok_Symbol = ''USDC'',
      tok_Recipient = ''0xRecipient'', tok_TokenName = ''USD Coin'', tok_TokenDecimals = 6\<rparr>"

definition sampleRule :: PricingRule where
  "sampleRule =
     \<lparr>rule_Amount = ''1000000'', rule_AcceptedTokens = [sampleToken],
      rule_Description = ''hello'', rule_MimeType = [], rule_OutputSchema = None\<rparr>"

definition premiumRule :: PricingRule where
  "premiumRule =
     \<lparr>rule_Amount = ''5000000'', rule_AcceptedTokens = [sampleToken],
      rule_Description = ''premium'', rule_MimeType = [], rule_OutputSchema = None\<rparr>"

definition sampleVerification :: "bool \<Rightarrow> VerificationResult" where
  "sampleVerification valid =
     \<lparr>ver_Valid = valid, ver_Reason = (if valid then [] else ''insufficient balance''),
      ver_PayerAddress = ''0xPayer'', ver_Amount = ''1000000'', ver_TokenSymbol = ''USDC''\<rparr>"

definition sampleSettlement :: SettlementResult where
  "sampleSettlement =
     \<lparr>stl_TransactionHash = ''0xabc'', stl_Status = ''confirmed'', stl_SettledAt = 1700000000,
      stl_Amount = ''1000000'', stl_PayerAddress = ''0xPayer'',
      stl_RecipientAddress = ''0xRecipient'', stl_Network = ''eip155:84532''\<rparr>"

text \<open>A verifier that accepts (or rejects) every payment and settles it.\<close>

definition sampleVerifier :: "bool \<Rightarrow> ChainVerifier" where
  "sampleVerifier valid =
     \<lparr>cv_Verify = (\<lambda>ctx payload requirements. Inr (sampleVerification valid)),
      cv_Settle = (\<lambda>ctx payload requirements. Inr sampleSettlement)\<rparr>"

definition sampleConfig :: "bool \<Rightarrow> Config" where
  "sampleConfig valid =
     \<lparr>cfg_Verifier = sampleVerifier valid,
      cfg_EndpointPricing =
        [(''/v1/*'', sampleRule), (''/health'', sampleRule), (''/v1/api/*'', premiumRule),
         (''/v1/hello'', sampleRule)],
      cfg_MethodPricing =
        [(''/pkg.Svc/*'', sampleRule), (''/pkg.Svc/Ping'', sampleRule),
         (''/pkg.Svc/Get*'', premiumRule)],
      cfg_DefaultPricing = None,
      cfg_ValidityDuration = 300000000000,
      cfg_SkipPaths = [''/health''],
      cfg_SkipMethods = [''/pkg.Svc/Ping''],
      cfg_CustomPaywallHTML = []\<rparr>"

text \<open>
  A sample standard library: base64 is the prefix \<open>b64:\<close>, and the JSON codec knows
  a handful of documents.
\<close>

definition samplePayload :: "int \<Rightarrow> PaymentPayload" where
  "samplePayload version =
     \<lparr>pay_X402Version = version,
      pay_Accepted = \<lparr>req_Scheme = ''exact'', req_Network = ''eip155:84532'',
                      req_Amount = ''1000000'', req_Asset = ''0x036C'',
                      req_PayTo = ''0xRecipient'', req_MaxTimeoutSeconds = 0,
                      req_Extra = None\<rparr>,
      pay_Payload = Some (JObject [(''signature'', JString ''0xsig'')]),
      pay_Extensions = None\<rparr>"

definition sampleLegacy :: LegacyPayment where
  "sampleLegacy =
     \<lparr>leg_X402Version = 1, leg_Scheme = ''exact'', leg_Network = ''base-sepolia'',
      leg_Payload = Some (JObject [(''signature'', JString ''0xv1sig'')])\<rparr>"

definition sampleLib :: stdlib where
  "sampleLib =
     \<lparr>lib_glob = globMatch,
      lib_b64decode = (\<lambda>s. if take 4 s = ''b64:'' then Some (drop 4 s) else None),
      lib_b64encode = (\<lambda>s. ''b64:'' @ s),
      lib_unmarshalPayload =
        (\<lambda>s. if s = ''{v2}'' then Some (samplePayload 2)
             else if s = ''{v1}'' then Some (samplePayload 1)
             else if s = ''{nopayload}'' then Some ((samplePayload 2)\<lparr>pay_Payload := None\<rparr>)
             else None),
      lib_unmarshalLegacy = (\<lambda>s. if s = ''{legacy}'' then Some sampleLegacy else None),
      lib_marshalResponse = (\<lambda>rsp. Some (''{tx:'' @ rsp_Transaction rsp @ ''}'')),
      lib_marshalRequired = (\<lambda>rq. Some ''{accepts}''),
      lib_seconds = (\<lambda>d. d div 1000000000)\<rparr>"

definition emptyContext :: Context where
  "emptyContext = \<lparr>ctx_payment = NoValue, ctx_incoming = None\<rparr>"

text \<open>A request for a path with the given headers, and a call context with metadata.\<close>

definition sampleRequest :: "string \<Rightarrow> (string \<times> string list) list \<Rightarrow> Request" where
  "sampleRequest path headers =
     \<lparr>r_Path = path, r_Header = map_of headers, r_Context = emptyContext\<rparr>"

definition sampleCall :: "(string \<times> string list) list \<Rightarrow> Context" where
  "sampleCall md = \<lparr>ctx_payment = NoValue, ctx_incoming = Some (map_of md)\<rparr>"

text \<open>
  The stages of a priced request that end before "Settled": no credential, a credential
  that does not decode, a verifier error, a verdict of invalid, a settlement error, each
  computed with the calls the transport makes.  On gRPC a rule without tokens ends there
  too.
\<close>

definition http_failsBeforeSettled :: "stdlib \<Rightarrow> Config \<Rightarrow> Request \<Rightarrow> PricingRule \<Rightarrow> bool" where
  "http_failsBeforeSettled L cfg r rule =
     (let (paymentHeader, isV2) = detectVersion r;
          requirements = buildRequirementsFromRule rule
      in paymentHeader = [] \<or>
         (case parseHeader L isV2 paymentHeader requirements of
            Inl err \<Rightarrow> True
          | Inr payload \<Rightarrow>
             (case cv_Verify (cfg_Verifier cfg) (r_Context r) payload requirements of
                Inl err \<Rightarrow> True
              | Inr verifyResult \<Rightarrow>
                  \<not> ver_Valid verifyResult \<or>
                  isl (cv_Settle (cfg_Verifier cfg) (r_Context r) payload requirements))))"

definition grpc_failsBeforeSettled :: "stdlib \<Rightarrow> Config \<Rightarrow> Context \<Rightarrow> PricingRule \<Rightarrow> bool" where
  "grpc_failsBeforeSettled L cfg ctx rule =
     (case ctx_incoming ctx of
        None \<Rightarrow> True
      | Some md \<Rightarrow>
         (case fst (ExtractPaymentFromMetadata L md) of
            Inl err \<Rightarrow> True
          | Inr payload \<Rightarrow>
             (case BuildPaymentRequirements rule of
                [] \<Rightarrow> True
              | requirements # _ \<Rightarrow>
                 (case cv_Verify (cfg_Verifier cfg) ctx payload (Some requirements) of
                    Inl err \<Rightarrow> True
                  | Inr verifyResult \<Rightarrow>
                      \<not> ver_Valid verifyResult \<or>
                      isl (cv_Settle (cfg_Verifier cfg) ctx payload (Some requirements))))))"

text \<open>An error response: one status line, of a client or server error.\<close>

definition http_errorResponse :: "http_event list \<Rightarrow> bool" where
  "http_errorResponse tr =
     (case statusCodes (ownWriterCalls tr) of
        [code] \<Rightarrow> code = StatusPaymentRequired \<or> code = StatusBadRequest \<or>
                  code = StatusInternalServerError
      | _ \<Rightarrow> False)"

definition grpc_errorStatus :: "(error, 'a) outcome \<Rightarrow> bool" where
  "grpc_errorStatus res =
     (case res of
        Failed (Status code msg) \<Rightarrow>
          code = ResourceExhausted \<or> code = Internal \<or> code = Unavailable
      | _ \<Rightarrow> False)"

text \<open>
  The response key that carries a settlement receipt for a credential of each protocol
  version, the receipt headers among the headers a trace sets, and the calls the
  wrapped handler made on the writer.
\<close>

definition http_receiptKey :: "bool \<Rightarrow> string" where
  "http_receiptKey isV2 = (if isV2 then HeaderPaymentResponse else HeaderLegacyPaymentResponse)"

definition grpc_receiptKey :: "bool \<Rightarrow> string" where
  "grpc_receiptKey isV2 =
     (if isV2 then MetadataKeyPaymentResponse else MetadataKeyLegacyPaymentResponse)"

definition receiptHeaders :: "http_event list \<Rightarrow> (string \<times> string) list" where
  "receiptHeaders tr =
     filter (\<lambda>(k, v). k = HeaderPaymentResponse \<or> k = HeaderLegacyPaymentResponse)
       (headersSet (ownWriterCalls tr))"

fun handlerWriterCalls :: "http_event list \<Rightarrow> writer_call list" where
  "handlerWriterCalls [] = []"
| "handlerWriterCalls (ServeHTTP r calls # es) = calls @ handlerWriterCalls es"
| "handlerWriterCalls (e # es) = handlerWriterCalls es"

text \<open>A trailer that carries exactly one key.\<close>

definition trailerUnder :: "string \<Rightarrow> string \<Rightarrow> MD \<Rightarrow> bool" where
  "trailerUnder k other md = (md k \<noteq> None \<and> md other = None)"

text \<open>
  A context in which a handler finds a verified payment: \<open>GetPaymentFromContext\<close>
  reports one, it is verified, and both \<open>RequirePayment\<close> functions return it.
\<close>

definition verifiedContext :: "Context \<Rightarrow> bool" where
  "verifiedContext ctx =
     (case GetPaymentFromContext ctx of
        (Some p, True) \<Rightarrow>
          pc_Verified p \<and> RequirePayment ctx = Returned p \<and> grpc_RequirePayment ctx = Returned p
      | _ \<Rightarrow> False)"

text \<open>
  The requirements the two sample rules resolve to, and the payload a version-1
  credential is upgraded to against the first of them.
\<close>

definition sampleRequirements :: PaymentRequirements where
  "sampleRequirements =
     \<lparr>req_Scheme = ''exact'', req_Network = ''eip155:84532'', req_Amount = ''1000000'',
      req_Asset = ''0x036C'', req_PayTo = ''0xRecipient'', req_MaxTimeoutSeconds = 0,
      req_Extra = None\<rparr>"

definition premiumRequirements :: PaymentRequirements where
  "premiumRequirements = sampleRequirements\<lparr>req_Amount := ''5000000''\<rparr>"

definition upgradedLegacyPayload :: PaymentPayload where
  "upgradedLegacyPayload =
     \<lparr>pay_X402Version = 1,
      pay_Accepted = sampleRequirements\<lparr>req_Network := ''base-sepolia''\<rparr>,
      pay_Payload = Some (JObject [(''signature'', JString ''0xv1sig'')]),
      pay_Extensions = None\<rparr>"

text \<open>Sample inputs for the version-1 package.\<close>

definition samplePayment :: Payment where
  "samplePayment =
     \<lparr>p1_X402Version = 1, p1_Scheme = ''exact'', p1_Network = ''base-sepolia'',
      p1_Payload = Some (JObject [(''signature'', JString ''0xv1sig'')])\<rparr>"

definition sampleSettlement1 :: V1_SettlementResult where
  "sampleSettlement1 =
     \<lparr>stl1_TransactionHash = ''0xabc'', stl1_Status = ''confirmed'',
      stl1_SettledAt = 1700000000, stl1_Amount = ''1000000'',
      stl1_PayerAddress = ''0xPayer'', stl1_RecipientAddress = ''0xRecipient''\<rparr>"

definition sampleLib1 :: stdlib_v1 where
  "sampleLib1 =
     \<lparr>lib1_glob = globMatch,
      lib1_b64decode = (\<lambda>s. if take 4 s = ''b64:'' then Some (drop 4 s) else None),
      lib1_b64encode = (\<lambda>s. ''b64:'' @ s),
      lib1_unmarshalPayment = (\<lambda>s. if s = ''{payment}'' then Some samplePayment else None),
      lib1_marshalResponse = (\<lambda>rsp. Some (''{tx:'' @ rsp1_TransactionHash rsp @ ''}'')),
      lib1_marshalRequired = (\<lambda>rq. Some ''{requirements}''),
      lib1_validBefore = (\<lambda>d. 1700000300)\<rparr>"

definition sampleConfig1 :: V1_Config where
  "sampleConfig1 =
     \<lparr>cfg1_Verifier =
        \<lparr>cv1_Verify = (\<lambda>ctx payment. Inr (sampleVerification True)),
         cv1_Settle = (\<lambda>ctx payment. Inr sampleSettlement1)\<rparr>,
      cfg1_EndpointPricing = [(''/v1/hello'', sampleRule)],
      cfg1_MethodPricing = [(''/pkg.Svc/*'', sampleRule)],
      cfg1_DefaultPricing = None,
      cfg1_ValidityDuration = 300000000000,
      cfg1_SkipPaths = [''/health''],
      cfg1_SkipMethods = [],
      cfg1_CustomPaywallHTML = []\<rparr>"

text \<open>The payment contexts the sample verifiers lead to.\<close>

definition samplePaymentContext :: "string \<Rightarrow> PaymentContext" where
  "samplePaymentContext network =
     \<lparr>pc_Verified = True, pc_PayerAddress = ''0xPayer'', pc_Amount = ''1000000'',
      pc_TokenSymbol = ''USDC'', pc_Network = network, pc_TransactionHash = ''0xabc'',
      pc_SettledAt = 1700000000\<rparr>"

section \<open>Basic facts about traces and sample inputs\<close>

lemmas str_simps = strings_HasSuffix_def strings_TrimSuffix_def strings_HasPrefix_def

lemmas hdr_simps = HeaderPaymentSignature_def HeaderLegacyPayment_def
  HeaderPaymentResponse_def HeaderLegacyPaymentResponse_def HeaderPaymentRequired_def

lemmas md_simps = MetadataKeyPaymentSignature_def MetadataKeyLegacyPayment_def
  MetadataKeyPaymentResponse_def MetadataKeyLegacyPaymentResponse_def

lemmas sample_simps = sampleLib_def sampleConfig_def sampleRequest_def sampleCall_def
  sampleVerifier_def sampleVerification_def sampleSettlement_def samplePayload_def
  sampleLegacy_def sampleRule_def premiumRule_def sampleToken_def emptyContext_def
  sampleRequirements_def premiumRequirements_def upgradedLegacyPayload_def

lemmas resolver_simps = MatchEndpoint_def MatchMethod_def resolve_def table_lookup_def
  matchPath_def str_simps

lemmas ctx_simps = newPaymentContext_def newPaymentResponse_def WithContext_def
  WithValue_PaymentContextKey_def

lemmas http_simps = detectVersion_def Header_Get_def hdr_simps parseHeader_def
  parsePaymentPayload_def parseLegacyPayment_def buildRequirementsFromRule_def
  PaymentMiddleware_def sendPaymentRequired_def sendError_def isBrowserRequest_def
  StatusPaymentRequired_def StatusBadRequest_def StatusInternalServerError_def

lemmas grpc_simps = md_simps MD_Get_def MD_Pairs_def ExtractPaymentFromMetadata_def
  DecodePaymentPayload_def DecodeLegacyPayment_def BuildPaymentRequirements_def
  UnaryServerInterceptor_def StreamServerInterceptor_def grpc_sendPaymentRequired_def
  EncodePaymentRequirements_def EncodePaymentResponse_def

lemmas v1_simps = sampleLib1_def sampleConfig1_def samplePayment_def sampleSettlement1_def
  V1_MatchEndpoint_def V1_MatchMethod_def V1_PaymentMiddleware_def parsePayment_def
  DecodePayment_def V1_newPaymentContext_def V1_newPaymentResponse_def
  V1_UnaryServerInterceptor_def V1_StreamServerInterceptor_def MetadataKeyPayment_def
  V1_MetadataKeyPaymentResponse_def V1_EncodePaymentResponse_def

text \<open>The observations distribute over the pieces a trace is put together from.\<close>

lemma statusCodes_append: "statusCodes (xs @ ys) = statusCodes xs @ statusCodes ys"
  by (induction xs rule: statusCodes.induct) auto

lemma headersSet_append: "headersSet (xs @ ys) = headersSet xs @ headersSet ys"
  by (induction xs rule: headersSet.induct) auto

lemma ownWriterCalls_append:
  "ownWriterCalls (xs @ ys) = ownWriterCalls xs @ ownWriterCalls ys"
  by (induction xs rule: ownWriterCalls.induct) auto

lemma handlerRequests_append:
  "handlerRequests (xs @ ys) = handlerRequests xs @ handlerRequests ys"
  by (induction xs rule: handlerRequests.induct) auto

lemma trailers_append: "trailers (xs @ ys) = trailers xs @ trailers ys"
  by (induction xs rule: trailers.induct) auto

lemma ownWriterCalls_map: "ownWriterCalls (map OnWriter cs) = cs"
  by (induction cs) auto

lemma handlerRequests_map: "handlerRequests (map OnWriter cs) = []"
  by (induction cs) auto

lemma statusCodes_sendError: "statusCodes (sendError code msg) = [code]"
  by (simp add: sendError_def)

lemma statusCodes_sendPaymentRequired:
  "statusCodes (sendPaymentRequired L r rule cfg) = [StatusPaymentRequired]"
  by (simp add: sendPaymentRequired_def statusCodes_append Let_def split: option.splits)

lemma receiptHeaders_sendError:
  "receiptHeaders (map OnWriter (sendError code msg)) = []"
  by (simp add: receiptHeaders_def ownWriterCalls_map sendError_def hdr_simps)

lemma receiptHeaders_sendPaymentRequired:
  "receiptHeaders (map OnWriter (sendPaymentRequired L r rule cfg)) = []"
  by (simp add: receiptHeaders_def ownWriterCalls_map headersSet_append
        sendPaymentRequired_def hdr_simps Let_def split: option.splits)

lemma receiptHeaders_Cons_call:
  "receiptHeaders (CallVerify # tr) = receiptHeaders tr"
  "receiptHeaders (CallSettle # tr) = receiptHeaders tr"
  "receiptHeaders (ServeHTTP r' calls # tr) = receiptHeaders tr"
  "receiptHeaders [] = []"
  "receiptHeaders [Panic] = []"
  by (simp_all add: receiptHeaders_def)

lemma receiptHeaders_receipt:
  "receiptHeaders (OnWriter (HeaderSet HeaderPaymentResponse v) # tr) =
     (HeaderPaymentResponse, v) # receiptHeaders tr"
  "receiptHeaders (OnWriter (HeaderSet HeaderLegacyPaymentResponse v) # tr) =
     (HeaderLegacyPaymentResponse, v) # receiptHeaders tr"
  by (simp_all add: receiptHeaders_def)

lemma trailerUnder_Pairs:
  "trailerUnder MetadataKeyPaymentResponse MetadataKeyLegacyPaymentResponse
     (MD_Pairs MetadataKeyPaymentResponse encoded)"
  "trailerUnder MetadataKeyLegacyPaymentResponse MetadataKeyPaymentResponse
     (MD_Pairs MetadataKeyLegacyPaymentResponse encoded)"
  by (simp_all add: trailerUnder_def MD_Pairs_def md_simps)

lemma verifiedContext_injected:
  "verifiedContext (WithValue_PaymentContextKey ctx (newPaymentContext vr network sr))"
  "verifiedContext (WithValue_PaymentContextKey ctx (V1_newPaymentContext vr network sr1))"
  by (simp_all add: verifiedContext_def WithValue_PaymentContextKey_def
        GetPaymentFromContext_def newPaymentContext_def V1_newPaymentContext_def
        RequirePayment_def grpc_RequirePayment_def)

lemmas trace_simps = statusCodes_append headersSet_append ownWriterCalls_append
  handlerRequests_append trailers_append ownWriterCalls_map handlerRequests_map
  statusCodes_sendError statusCodes_sendPaymentRequired receiptHeaders_sendError
  receiptHeaders_sendPaymentRequired receiptHeaders_Cons_call receiptHeaders_receipt
  trailerUnder_Pairs verifiedContext_injected

section \<open>Properties of the pricing rule resolver\<close>

lemma skipped_iff: "skipped glob ident skips = list_ex (matchPath glob ident) skips"
  by (induction skips) auto

lemma matchPath_patternMatch: "matchPath glob ident p = patternMatch glob ident p"
  by (auto simp: matchPath_def patternMatch_def prefixMatch_def Let_def)

lemma resolve_skip:
  "list_ex (patternMatch glob ident) skips \<Longrightarrow> resolve glob skips tbl dflt ident = (None, False)"
  by (simp add: resolve_def skipped_iff matchPath_patternMatch[abs_def])

text \<open>
  C2, as stated: an identifier that matches a skip pattern by exact equality, by the
  \<open>/*\<close> prefix rule, or by a shell-glob match resolves to "no payment required".
  It fails for a skip pattern that ends in \<open>/*\<close> and has a metacharacter before it:
  \<open>matchPath\<close> answers for such a pattern from the prefix rule alone and never asks
  the glob matcher.  The skip pattern \<open>/*/*\<close> glob-matches \<open>/a/b\<close>, yet \<open>/a/b\<close> is
  not skipped and resolves to its priced rule.
\<close>

theorem glob_skip_pattern_counterexample:
  "claimedMatch globMatch ''/a/b'' ''/*/*'' \<and>
   MatchEndpoint globMatch
     ((sampleConfig True)\<lparr>cfg_SkipPaths := [''/*/*''],
                           cfg_EndpointPricing := [(''/a/b'', sampleRule)]\<rparr>) ''/a/b''
     = (Some sampleRule, True)"
  by (simp add: claimedMatch_def MatchEndpoint_def resolve_def matchPath_def table_lookup_def
      sampleConfig_def str_simps)

text \<open>
  C2, amended: an identifier that matches at least one configured skip pattern - by
  exact string equality, or, for a pattern ending in \<open>/*\<close>, by equalling its prefix or
  extending it with \<open>/\<close>, or, for a pattern not ending in \<open>/*\<close>, by a shell-glob match -
  resolves through \<open>MatchEndpoint\<close> and \<open>MatchMethod\<close> to "no payment required"
  \<open>(nil, false)\<close>, whatever the pricing table holds, an exact key for the identifier
  included: the skip check comes before any rule lookup.
\<close>

theorem skip_takes_precedence:
  "(list_ex (patternMatch glob ident) (cfg_SkipPaths c)
      \<longrightarrow> MatchEndpoint glob c ident = (None, False)) \<and>
   (list_ex (patternMatch glob ident) (cfg_SkipMethods c)
      \<longrightarrow> MatchMethod glob c ident = (None, False))"
  by (simp add: MatchEndpoint_def MatchMethod_def resolve_skip)

theorem skip_takes_precedence_witness:
  "list_ex (patternMatch globMatch ''/health'') (cfg_SkipPaths (sampleConfig True)) \<and>
   table_lookup (cfg_EndpointPricing (sampleConfig True)) ''/health'' = Some sampleRule \<and>
   MatchEndpoint globMatch (sampleConfig True) ''/health'' = (None, False) \<and>
   list_ex (patternMatch globMatch ''/pkg.Svc/Ping'') (cfg_SkipMethods (sampleConfig True)) \<and>
   table_lookup (cfg_MethodPricing (sampleConfig True)) ''/pkg.Svc/Ping'' = Some sampleRule \<and>
   MatchMethod globMatch (sampleConfig True) ''/pkg.Svc/Ping'' = (None, False)"
  using skip_takes_precedence [of globMatch "''/health''" "sampleConfig True"]
        skip_takes_precedence [of globMatch "''/pkg.Svc/Ping''" "sampleConfig True"]
  by (simp add: sampleConfig_def patternMatch_def table_lookup_def)

text \<open>
  The wildcard scan, started from \<open>(bestMatch, bestRule)\<close>: when some entry matches
  with a pattern longer than \<open>bestMatch\<close>, the scan ends on such an entry, and no
  matching entry has a longer pattern; otherwise it leaves the pair as it was.
\<close>

lemma wildcardScan_result:
  "wildcardScan glob ident tbl (bm, br) = (bm', br') \<Longrightarrow>
     (if \<exists>(p, r) \<in> set tbl. matchPath glob ident p \<and> length p > length bm
      then \<exists>r. br' = Some r \<and> (bm', r) \<in> set tbl \<and> matchPath glob ident bm'
             \<and> length bm' > length bm
             \<and> (\<forall>(q, r') \<in> set tbl. matchPath glob ident q \<longrightarrow> length q \<le> length bm')
      else bm' = bm \<and> br' = br)"
proof (induction tbl arbitrary: bm br)
  case Nil
  then show ?case by simp
next
  case (Cons e tbl)
  obtain p r where e: "e = (p, r)" by (cases e)
  show ?case
  proof (cases "matchPath glob ident p \<and> length p > length bm")
    case True
    with Cons.prems e have step: "wildcardScan glob ident tbl (p, Some r) = (bm', br')"
      by simp
    note IH = Cons.IH[OF step]
    show ?thesis
    proof (cases "\<exists>(q, r') \<in> set tbl. matchPath glob ident q \<and> length q > length p")
      case longer: True
      with IH obtain r2 where r2: "br' = Some r2" "(bm', r2) \<in> set tbl"
          "matchPath glob ident bm'" "length bm' > length p"
          "\<forall>(q, r') \<in> set tbl. matchPath glob ident q \<longrightarrow> length q \<le> length bm'"
        by auto
      with True e show ?thesis by auto
    next
      case nolonger: False
      with IH have "bm' = p" "br' = Some r" by auto
      with True e nolonger show ?thesis by (auto simp: not_less)
    qed
  next
    case False
    with Cons.prems e have step: "wildcardScan glob ident tbl (bm, br) = (bm', br')"
      by auto
    note IH = Cons.IH[OF step]
    from False e show ?thesis using IH by (auto split: if_splits)
  qed
qed

lemma empty_pattern_matches_empty:
  assumes "glob [] ident \<Longrightarrow> ident = []" and "matchPath glob ident []"
  shows "ident = []"
  using assms by (auto simp: matchPath_def strings_HasSuffix_def split: if_splits)

lemma matching_pattern_nonempty:
  assumes glob_empty: "glob [] ident \<Longrightarrow> ident = []"
    and nokey: "table_lookup tbl ident = None"
    and mem: "(p, r) \<in> set tbl" and m: "matchPath glob ident p"
  shows "p \<noteq> []"
proof
  assume "p = []"
  with m glob_empty have "ident = []" by (auto dest: empty_pattern_matches_empty)
  with mem \<open>p = []\<close> have "ident \<in> fst ` set tbl" by force
  with nokey show False by (simp add: table_lookup_def map_of_eq_None_iff)
qed

lemma resolve_wildcard:
  assumes glob_empty: "glob [] ident \<Longrightarrow> ident = []"
    and noskip: "\<not> list_ex (patternMatch glob ident) skips"
    and nokey: "table_lookup tbl ident = None"
  shows "longestWildcardOrDefault (patternMatch glob) tbl dflt ident
           (resolve glob skips tbl dflt ident)"
proof -
  have pm: "patternMatch glob = matchPath glob"
    by (intro ext) (simp add: matchPath_patternMatch)
  from noskip have noskip': "\<not> list_ex (matchPath glob ident) skips"
    by (simp add: pm)
  obtain bm' br' where scan: "wildcardScan glob ident tbl ([], None) = (bm', br')"
    by (cases "wildcardScan glob ident tbl ([], None)")
  note res = wildcardScan_result[OF scan]
  show ?thesis
    unfolding pm
  proof (cases "list_ex (\<lambda>(p, r). matchPath glob ident p) tbl")
    case True
    then obtain p r where pr: "(p, r) \<in> set tbl" "matchPath glob ident p"
      by (auto simp: list_ex_iff)
    have "p \<noteq> []"
      by (rule matching_pattern_nonempty[OF glob_empty nokey pr])
    with pr have "\<exists>(p, r) \<in> set tbl. matchPath glob ident p \<and> length p > length ([]::string)"
      by auto
    with res obtain r2 where r2: "br' = Some r2" "(bm', r2) \<in> set tbl"
        "matchPath glob ident bm'"
        "\<forall>(q, r') \<in> set tbl. matchPath glob ident q \<longrightarrow> length q \<le> length bm'"
      by (auto split: if_splits)
    have "resolve glob skips tbl dflt ident = (Some r2, True)"
      using noskip' nokey scan r2(1) by (simp add: resolve_def skipped_iff)
    with True r2 show "longestWildcardOrDefault (matchPath glob) tbl dflt ident
        (resolve glob skips tbl dflt ident)"
      unfolding longestWildcardOrDefault_def list_ex_iff list_all_iff by auto
  next
    case False
    then have "\<not> (\<exists>(p, r) \<in> set tbl. matchPath glob ident p \<and> length p > length ([]::string))"
      by (auto simp: list_ex_iff)
    with res have "br' = None" by (auto split: if_splits)
    then have "resolve glob skips tbl dflt ident =
        (case dflt of Some d \<Rightarrow> (Some d, True) | None \<Rightarrow> (None, False))"
      using noskip' nokey scan by (simp add: resolve_def skipped_iff split: option.splits)
    with False show "longestWildcardOrDefault (matchPath glob) tbl dflt ident
        (resolve glob skips tbl dflt ident)"
      by (simp add: longestWildcardOrDefault_def)
  qed
qed

lemma globMatch_empty: "globMatch [] name \<Longrightarrow> name = []"
  by simp

text \<open>
  C5, as stated: for an identifier that is not skipped and is not an exact key of the
  rule table, when one or more wildcard or glob patterns of the table match it,
  resolution returns the rule of the matching pattern of the greatest string length,
  and when no pattern matches, the default rule or "no payment required".  With a
  pattern matching as the specification words it - by equality, by the \<open>/*\<close> prefix
  rule, or by a shell glob - this fails for a pattern that ends in \<open>/*\<close> and has a
  metacharacter before it, which \<open>matchPath\<close> never hands to the glob matcher.  In the
  table of \<open>/a*/*\<close> and \<open>/a/?\<close> both patterns glob-match \<open>/a/b\<close> and \<open>/a*/*\<close> is the
  longer, yet resolution returns the rule of \<open>/a/?\<close>.  In the table of \<open>/*/*\<close> alone
  the pattern glob-matches \<open>/a/b\<close>, yet resolution finds no pattern and, with no
  default rule, answers "no payment required".
\<close>

theorem longest_glob_pattern_counterexample:
  "\<not> list_ex (claimedMatch globMatch ''/a/b'') [] \<and>
   table_lookup [(''/a*/*'', premiumRule), (''/a/?'', sampleRule)] ''/a/b'' = None \<and>
   claimedMatch globMatch ''/a/b'' ''/a*/*'' \<and>
   claimedMatch globMatch ''/a/b'' ''/a/?'' \<and>
   length ''/a/?'' < length ''/a*/*'' \<and>
   premiumRule \<noteq> sampleRule \<and>
   MatchEndpoint globMatch
     ((sampleConfig True)\<lparr>cfg_SkipPaths := [],
        cfg_EndpointPricing := [(''/a*/*'', premiumRule), (''/a/?'', sampleRule)]\<rparr>) ''/a/b''
     = (Some sampleRule, True) \<and>
   \<not> longestWildcardOrDefault (claimedMatch globMatch)
       [(''/a*/*'', premiumRule), (''/a/?'', sampleRule)] None ''/a/b''
       (MatchEndpoint globMatch
          ((sampleConfig True)\<lparr>cfg_SkipPaths := [],
             cfg_EndpointPricing := [(''/a*/*'', premiumRule), (''/a/?'', sampleRule)]\<rparr>)
          ''/a/b'') \<and>
   table_lookup [(''/*/*'', sampleRule)] ''/a/b'' = None \<and>
   claimedMatch globMatch ''/a/b'' ''/*/*'' \<and>
   MatchEndpoint globMatch
     ((sampleConfig True)\<lparr>cfg_SkipPaths := [],
        cfg_EndpointPricing := [(''/*/*'', sampleRule)]\<rparr>) ''/a/b''
     = (None, False) \<and>
   \<not> longestWildcardOrDefault (claimedMatch globMatch) [(''/*/*'', sampleRule)] None ''/a/b''
       (MatchEndpoint globMatch
          ((sampleConfig True)\<lparr>cfg_SkipPaths := [],
             cfg_EndpointPricing := [(''/*/*'', sampleRule)]\<rparr>) ''/a/b'')"
  by (simp add: claimedMatch_def prefixMatch_def longestWildcardOrDefault_def
        MatchEndpoint_def resolve_def matchPath_def table_lookup_def sampleConfig_def
        sampleRule_def premiumRule_def str_simps)

text \<open>
  C5, amended: for an identifier that is not skipped and is not an exact key of the
  rule table, when one or more patterns of the table match it - by exact string
  equality, or, for a pattern ending in \<open>/*\<close>, by equalling its prefix or extending it
  with \<open>/\<close>, or, for a pattern not ending in \<open>/*\<close>, by a shell-glob match -
  \<open>MatchEndpoint\<close> and \<open>MatchMethod\<close> return the rule of a matching pattern of the
  greatest string length among the matching patterns; when no pattern matches, they
  return the default rule if one is configured and "no payment required" otherwise.
  "Skipped" is read the same way.  The glob matcher is any function that, like
  \<open>path.Match\<close>, lets the empty pattern match only the empty name.
\<close>

theorem longest_wildcard_or_default:
  assumes "glob [] ident \<Longrightarrow> ident = []"
  shows "(\<not> list_ex (patternMatch glob ident) (cfg_SkipPaths c) \<longrightarrow>
          table_lookup (cfg_EndpointPricing c) ident = None \<longrightarrow>
          longestWildcardOrDefault (patternMatch glob) (cfg_EndpointPricing c)
            (cfg_DefaultPricing c) ident (MatchEndpoint glob c ident)) \<and>
         (\<not> list_ex (patternMatch glob ident) (cfg_SkipMethods c) \<longrightarrow>
          table_lookup (cfg_MethodPricing c) ident = None \<longrightarrow>
          longestWildcardOrDefault (patternMatch glob) (cfg_MethodPricing c)
            (cfg_DefaultPricing c) ident (MatchMethod glob c ident))"
  using assms by (simp add: MatchEndpoint_def MatchMethod_def resolve_wildcard)

theorem longest_wildcard_or_default_witness:
  "\<not> list_ex (patternMatch globMatch ''/v1/api/users'') (cfg_SkipPaths (sampleConfig True)) \<and>
   table_lookup (cfg_EndpointPricing (sampleConfig True)) ''/v1/api/users'' = None \<and>
   patternMatch globMatch ''/v1/api/users'' ''/v1/*'' \<and>
   patternMatch globMatch ''/v1/api/users'' ''/v1/api/*'' \<and>
   MatchEndpoint globMatch (sampleConfig True) ''/v1/api/users'' = (Some premiumRule, True) \<and>
   longestWildcardOrDefault (patternMatch globMatch) (cfg_EndpointPricing (sampleConfig True))
     (cfg_DefaultPricing (sampleConfig True)) ''/v1/api/users''
     (MatchEndpoint globMatch (sampleConfig True) ''/v1/api/users'') \<and>
   \<not> list_ex (patternMatch globMatch ''/pkg.Svc/GetItem'') (cfg_SkipMethods (sampleConfig True)) \<and>
   table_lookup (cfg_MethodPricing (sampleConfig True)) ''/pkg.Svc/GetItem'' = None \<and>
   patternMatch globMatch ''/pkg.Svc/GetItem'' ''/pkg.Svc/*'' \<and>
   patternMatch globMatch ''/pkg.Svc/GetItem'' ''/pkg.Svc/Get*'' \<and>
   MatchMethod globMatch (sampleConfig True) ''/pkg.Svc/GetItem'' = (Some premiumRule, True) \<and>
   longestWildcardOrDefault (patternMatch globMatch) (cfg_MethodPricing (sampleConfig True))
     (cfg_DefaultPricing (sampleConfig True)) ''/pkg.Svc/GetItem''
     (MatchMethod globMatch (sampleConfig True) ''/pkg.Svc/GetItem'') \<and>
   \<not> list_ex (patternMatch globMatch ''/a/b'') [] \<and>
   table_lookup [(''/a*/*'', premiumRule), (''/a/?'', sampleRule)] ''/a/b'' = None \<and>
   \<not> patternMatch globMatch ''/a/b'' ''/a*/*'' \<and>
   patternMatch globMatch ''/a/b'' ''/a/?'' \<and>
   longestWildcardOrDefault (patternMatch globMatch)
     [(''/a*/*'', premiumRule), (''/a/?'', sampleRule)] None ''/a/b''
     (MatchEndpoint globMatch
        ((sampleConfig True)\<lparr>cfg_SkipPaths := [],
           cfg_EndpointPricing := [(''/a*/*'', premiumRule), (''/a/?'', sampleRule)]\<rparr>)
        ''/a/b'')"
  using longest_wildcard_or_default
          [of globMatch "''/v1/api/users''" "sampleConfig True", OF globMatch_empty]
        longest_wildcard_or_default
          [of globMatch "''/pkg.Svc/GetItem''" "sampleConfig True", OF globMatch_empty]
        longest_wildcard_or_default
          [of globMatch "''/a/b''"
              "(sampleConfig True)\<lparr>cfg_SkipPaths := [],
                 cfg_EndpointPricing := [(''/a*/*'', premiumRule), (''/a/?'', sampleRule)]\<rparr>",
           OF globMatch_empty]
  by (simp add: sampleConfig_def table_lookup_def patternMatch_def prefixMatch_def str_simps
        MatchEndpoint_def MatchMethod_def resolve_def matchPath_def)

section \<open>Properties of the codec\<close>

text \<open>
  The HTTP decoder refuses a payload whose version is below 2 or whose scheme-specific
  payload is absent; the gRPC decoder refuses an absent payload.
\<close>

lemma parsePaymentPayload_rejects:
  assumes "lib_b64decode L header = Some bytes" "lib_unmarshalPayload L bytes = Some payload"
    and "pay_X402Version payload < 2 \<or> pay_Payload payload = None"
  shows "isl (parsePaymentPayload L header)"
  using assms by (auto simp: parsePaymentPayload_def)

lemma DecodePaymentPayload_rejects_missing_payload:
  assumes "lib_b64decode L encoded = Some bytes" "lib_unmarshalPayload L bytes = Some payload"
    and "pay_Payload payload = None"
  shows "DecodePaymentPayload L encoded = Inl PayloadRequired"
  using assms by (simp add: DecodePaymentPayload_def)

text \<open>
  C6: a V2 credential whose declared \<open>x402Version\<close> is below 2 must fail to decode on
  both transports.  \<open>DecodePaymentPayload\<close> of the gRPC transport has no version check:
  a credential that decodes to a payload of version below 2 with a scheme payload is
  returned as valid, where \<open>parsePaymentPayload\<close> of the HTTP transport refuses the same
  string.
\<close>

theorem grpc_decoder_accepts_low_version:
  assumes "lib_b64decode L encoded = Some jsonBytes"
    and "lib_unmarshalPayload L jsonBytes = Some payload"
    and "pay_X402Version payload < 2"
    and "pay_Payload payload \<noteq> None"
  shows "DecodePaymentPayload L encoded = Inr payload \<and>
         parsePaymentPayload L encoded = Inl (VersionTooLow (pay_X402Version payload))"
  using assms by (simp add: DecodePaymentPayload_def parsePaymentPayload_def)

theorem grpc_decoder_accepts_low_version_witness:
  "lib_b64decode sampleLib ''b64:{v1}'' = Some ''{v1}'' \<and>
   lib_unmarshalPayload sampleLib ''{v1}'' = Some (samplePayload 1) \<and>
   pay_X402Version (samplePayload 1) < 2 \<and>
   pay_Payload (samplePayload 1) \<noteq> None \<and>
   DecodePaymentPayload sampleLib ''b64:{v1}'' = Inr (samplePayload 1) \<and>
   parsePaymentPayload sampleLib ''b64:{v1}'' = Inl (VersionTooLow 1)"
  using grpc_decoder_accepts_low_version
          [of sampleLib "''b64:{v1}''" "''{v1}''" "samplePayload 1"]
  by (simp add: sampleLib_def samplePayload_def)

section \<open>Properties of the protocol state machine\<close>

text \<open>A request that requires payment comes with a rule: the pair is never \<open>(nil, true)\<close>.\<close>

lemma resolve_priced_fst:
  "snd (resolve glob skips tbl dflt ident) \<Longrightarrow> fst (resolve glob skips tbl dflt ident) \<noteq> None"
  by (simp add: resolve_def split: if_splits option.splits)

lemma resolve_priced_has_rule:
  assumes "resolve glob skips tbl dflt ident = (ruleptr, True)"
  shows "\<exists>rule. ruleptr = Some rule"
  using resolve_priced_fst[of glob skips tbl dflt ident] assms by auto

lemma http_failure_no_handler:
  assumes priced: "MatchEndpoint (lib_glob L) cfg (r_Path r) = (Some rule, True)"
    and fails: "http_failsBeforeSettled L cfg r rule"
  shows "handlerRequests (PaymentMiddleware L cfg next r) = [] \<and>
         http_errorResponse (PaymentMiddleware L cfg next r) \<and>
         Panic \<notin> set (PaymentMiddleware L cfg next r)"
  using assms
  by (auto simp: trace_simps PaymentMiddleware_def http_failsBeforeSettled_def http_errorResponse_def
        Let_def split: prod.splits sum.splits if_splits)

lemma grpc_sendPaymentRequired_status:
  "grpc_errorStatus (Failed (grpc_sendPaymentRequired L rule))"
  by (simp add: grpc_errorStatus_def grpc_sendPaymentRequired_def Let_def split: option.splits)

lemma unary_failure_no_handler:
  assumes priced: "MatchMethod (lib_glob L) cfg fullMethod = (Some rule, True)"
    and fails: "grpc_failsBeforeSettled L cfg ctx rule"
  shows "handlerContexts (snd (UnaryServerInterceptor L cfg ctx req fullMethod handler)) = [] \<and>
         grpc_errorStatus (fst (UnaryServerInterceptor L cfg ctx req fullMethod handler))"
  using assms grpc_sendPaymentRequired_status[of L rule]
  by (auto simp: UnaryServerInterceptor_def grpc_failsBeforeSettled_def
        Let_def grpc_errorStatus_def
        split: prod.splits sum.splits if_splits option.splits list.splits)

lemma stream_failure_no_handler:
  assumes priced: "MatchMethod (lib_glob L) cfg fullMethod = (Some rule, True)"
    and fails: "grpc_failsBeforeSettled L cfg ctx rule"
  shows "handlerContexts (snd (StreamServerInterceptor L cfg ctx fullMethod handler)) = [] \<and>
         grpc_errorStatus (fst (StreamServerInterceptor L cfg ctx fullMethod handler))"
  using assms grpc_sendPaymentRequired_status[of L rule]
  by (auto simp: StreamServerInterceptor_def grpc_failsBeforeSettled_def
        Let_def grpc_errorStatus_def
        split: prod.splits sum.splits if_splits option.splits list.splits)

text \<open>
  C1: in the HTTP middleware, the unary interceptor and the stream interceptor, a
  request that requires payment and fails at a stage before settlement succeeds (no
  credential, a credential that does not decode, a verifier error, a verdict of
  invalid, a settlement error) never reaches the wrapped handler; the transport answers
  with an error instead: one HTTP status among 402, 400 and 500, or a gRPC status
  among \<open>RESOURCE_EXHAUSTED\<close>, \<open>INTERNAL\<close> and \<open>UNAVAILABLE\<close>.
\<close>

theorem failure_before_settled_skips_handler:
  "(MatchEndpoint (lib_glob L) cfg (r_Path r) = (Some rule, True) \<longrightarrow>
    http_failsBeforeSettled L cfg r rule \<longrightarrow>
      handlerRequests (PaymentMiddleware L cfg next r) = [] \<and>
      http_errorResponse (PaymentMiddleware L cfg next r) \<and>
      Panic \<notin> set (PaymentMiddleware L cfg next r)) \<and>
   (MatchMethod (lib_glob L) cfg fullMethod = (Some mrule, True) \<longrightarrow>
    grpc_failsBeforeSettled L cfg ctx mrule \<longrightarrow>
      handlerContexts (snd (UnaryServerInterceptor L cfg ctx req fullMethod handler)) = [] \<and>
      grpc_errorStatus (fst (UnaryServerInterceptor L cfg ctx req fullMethod handler)) \<and>
      handlerContexts (snd (StreamServerInterceptor L cfg ctx fullMethod shandler)) = [] \<and>
      grpc_errorStatus (fst (StreamServerInterceptor L cfg ctx fullMethod shandler)))"
  using http_failure_no_handler[of L cfg r rule "next"]
        unary_failure_no_handler[of L cfg fullMethod mrule ctx req handler]
        stream_failure_no_handler[of L cfg fullMethod mrule ctx shandler]
  by blast

theorem failure_before_settled_skips_handler_witness:
  "MatchEndpoint (lib_glob sampleLib) (sampleConfig False)
     (r_Path (sampleRequest ''/v1/hello'' [(''PAYMENT-SIGNATURE'', [''b64:{v2}''])]))
     = (Some sampleRule, True) \<and>
   http_failsBeforeSettled sampleLib (sampleConfig False)
     (sampleRequest ''/v1/hello'' [(''PAYMENT-SIGNATURE'', [''b64:{v2}''])]) sampleRule \<and>
   handlerRequests (PaymentMiddleware sampleLib (sampleConfig False) (\<lambda>r. [WriteHeader 200])
     (sampleRequest ''/v1/hello'' [(''PAYMENT-SIGNATURE'', [''b64:{v2}''])])) = [] \<and>
   statusCodes (ownWriterCalls (PaymentMiddleware sampleLib (sampleConfig False)
     (\<lambda>r. [WriteHeader 200])
     (sampleRequest ''/v1/hello'' [(''PAYMENT-SIGNATURE'', [''b64:{v2}''])]))) = [402] \<and>
   MatchMethod (lib_glob sampleLib) (sampleConfig False) ''/pkg.Svc/GetItem''
     = (Some premiumRule, True) \<and>
   grpc_failsBeforeSettled sampleLib (sampleConfig False)
     (sampleCall [(''payment-signature'', [''not base64''])]) premiumRule \<and>
   handlerContexts (snd (UnaryServerInterceptor sampleLib (sampleConfig False)
     (sampleCall [(''payment-signature'', [''not base64''])]) (7::nat) ''/pkg.Svc/GetItem''
     (\<lambda>c q. Inr q))) = [] \<and>
   fst (UnaryServerInterceptor sampleLib (sampleConfig False)
     (sampleCall [(''payment-signature'', [''not base64''])]) (7::nat) ''/pkg.Svc/GetItem''
     (\<lambda>c q. Inr q)) = Failed (Status ResourceExhausted (EncodedRequirements ''b64:{accepts}'')) \<and>
   handlerContexts (snd (StreamServerInterceptor sampleLib (sampleConfig False)
     (sampleCall [(''payment-signature'', [''not base64''])]) ''/pkg.Svc/GetItem''
     (\<lambda>c. None))) = [] \<and>
   fst (StreamServerInterceptor sampleLib (sampleConfig False)
     (sampleCall [(''payment-signature'', [''not base64''])]) ''/pkg.Svc/GetItem''
     (\<lambda>c. None)) = Failed (Status ResourceExhausted (EncodedRequirements ''b64:{accepts}''))"
  using failure_before_settled_skips_handler
    [of sampleLib "sampleConfig False"
        "sampleRequest ''/v1/hello'' [(''PAYMENT-SIGNATURE'', [''b64:{v2}''])]" sampleRule
        "\<lambda>r. [WriteHeader 200]" "''/pkg.Svc/GetItem''" premiumRule
        "sampleCall [(''payment-signature'', [''not base64''])]" "7::nat" "\<lambda>c q. Inr q"
        "\<lambda>c. None"]
  by (simp add: sampleLib_def sampleConfig_def sampleRequest_def sampleCall_def
        sampleVerifier_def sampleVerification_def samplePayload_def sampleRule_def
        premiumRule_def sampleToken_def
        MatchEndpoint_def MatchMethod_def resolve_def table_lookup_def matchPath_def str_simps
        http_failsBeforeSettled_def grpc_failsBeforeSettled_def detectVersion_def
        Header_Get_def hdr_simps md_simps MD_Get_def parseHeader_def parsePaymentPayload_def
        buildRequirementsFromRule_def ExtractPaymentFromMetadata_def DecodePaymentPayload_def
        BuildPaymentRequirements_def PaymentMiddleware_def sendPaymentRequired_def
        isBrowserRequest_def StatusPaymentRequired_def
        UnaryServerInterceptor_def StreamServerInterceptor_def grpc_sendPaymentRequired_def
        EncodePaymentRequirements_def Let_def)

text \<open>
  The trace of a request whose every stage succeeds, whatever the wrapped handler is:
  verify, settle, the receipt header, the call of the handler.
\<close>

lemma http_settled_trace:
  assumes "MatchEndpoint (lib_glob L) cfg (r_Path r) = (Some rule, True)"
    and "detectVersion r = (paymentHeader, isV2)" and "paymentHeader \<noteq> []"
    and "buildRequirementsFromRule rule = Some rq"
    and "parseHeader L isV2 paymentHeader (Some rq) = Inr payload"
    and "cv_Verify (cfg_Verifier cfg) (r_Context r) payload (Some rq) = Inr verifyResult"
    and "ver_Valid verifyResult"
    and "cv_Settle (cfg_Verifier cfg) (r_Context r) payload (Some rq) = Inr settlementResult"
  shows "PaymentMiddleware L cfg next r =
           [CallVerify, CallSettle] @
           (case lib_marshalResponse L (newPaymentResponse settlementResult) of
              Some responseJSON \<Rightarrow>
                [OnWriter (HeaderSet (http_receiptKey isV2) (lib_b64encode L responseJSON))]
            | None \<Rightarrow> []) @
           [ServeHTTP
              (WithContext r (WithValue_PaymentContextKey (r_Context r)
                 (newPaymentContext verifyResult (req_Network rq) settlementResult)))
              (next (WithContext r (WithValue_PaymentContextKey (r_Context r)
                 (newPaymentContext verifyResult (req_Network rq) settlementResult))))]"
  using assms
  by (simp add: PaymentMiddleware_def Let_def http_receiptKey_def split: option.splits)

lemma unary_settled_result:
  assumes "MatchMethod (lib_glob L) cfg fullMethod = (Some rule, True)"
    and "ctx_incoming ctx = Some md"
    and "ExtractPaymentFromMetadata L md = (Inr payload, isV2)"
    and "BuildPaymentRequirements rule = rq # rest"
    and "cv_Verify (cfg_Verifier cfg) ctx payload (Some rq) = Inr verifyResult"
    and "ver_Valid verifyResult"
    and "cv_Settle (cfg_Verifier cfg) ctx payload (Some rq) = Inr settlementResult"
  shows "UnaryServerInterceptor L cfg ctx req fullMethod handler =
           (let ctx' = WithValue_PaymentContextKey ctx
                         (newPaymentContext verifyResult (req_Network rq) settlementResult)
            in case handler ctx' req of
                 Inl err \<Rightarrow> (Failed err, [GVerify, GSettle, GHandler ctx'])
               | Inr resp \<Rightarrow>
                   (Returned resp,
                    [GVerify, GSettle, GHandler ctx'] @
                    (case EncodePaymentResponse L (newPaymentResponse settlementResult) of
                       None \<Rightarrow> []
                     | Some encoded \<Rightarrow>
                         [GSetTrailer (MD_Pairs (grpc_receiptKey isV2) encoded)])))"
  using assms
  by (simp add: UnaryServerInterceptor_def Let_def grpc_receiptKey_def
        split: option.splits sum.splits)

lemma stream_settled_result:
  assumes "MatchMethod (lib_glob L) cfg fullMethod = (Some rule, True)"
    and "ctx_incoming ctx = Some md"
    and "ExtractPaymentFromMetadata L md = (Inr payload, isV2)"
    and "BuildPaymentRequirements rule = rq # rest"
    and "cv_Verify (cfg_Verifier cfg) ctx payload (Some rq) = Inr verifyResult"
    and "ver_Valid verifyResult"
    and "cv_Settle (cfg_Verifier cfg) ctx payload (Some rq) = Inr settlementResult"
  shows "StreamServerInterceptor L cfg ctx fullMethod handler =
           (let ctx' = WithValue_PaymentContextKey ctx
                         (newPaymentContext verifyResult (req_Network rq) settlementResult)
            in case handler ctx' of
                 Some err \<Rightarrow> (Failed err, [GVerify, GSettle, GHandler ctx'])
               | None \<Rightarrow>
                   (Returned (),
                    [GVerify, GSettle, GHandler ctx'] @
                    (case EncodePaymentResponse L (newPaymentResponse settlementResult) of
                       None \<Rightarrow> []
                     | Some encoded \<Rightarrow>
                         [GSetTrailer (MD_Pairs (grpc_receiptKey isV2) encoded)])))"
  using assms
  by (simp add: StreamServerInterceptor_def Let_def grpc_receiptKey_def
        split: option.splits sum.splits)

lemma not_isl_Inr: "\<not> isl x \<Longrightarrow> \<exists>y. x = Inr y"
  by (cases x) auto

text \<open>
  Stages are exhaustive: a priced request fails before "Settled" or has the results of
  every stage.
\<close>

lemma http_settled_or_failed:
  assumes "MatchEndpoint (lib_glob L) cfg (r_Path r) = (Some rule, True)"
    and "detectVersion r = (paymentHeader, isV2)"
    and "\<not> http_failsBeforeSettled L cfg r rule"
  shows "paymentHeader \<noteq> [] \<and>
         (\<exists>payload verifyResult settlementResult.
            parseHeader L isV2 paymentHeader (buildRequirementsFromRule rule) = Inr payload \<and>
            cv_Verify (cfg_Verifier cfg) (r_Context r) payload (buildRequirementsFromRule rule)
              = Inr verifyResult \<and>
            ver_Valid verifyResult \<and>
            cv_Settle (cfg_Verifier cfg) (r_Context r) payload (buildRequirementsFromRule rule)
              = Inr settlementResult)"
  using assms
  by (auto simp: http_failsBeforeSettled_def Let_def split: sum.splits dest: not_isl_Inr)

lemma grpc_settled_or_failed:
  assumes "\<not> grpc_failsBeforeSettled L cfg ctx rule"
  shows "\<exists>md payload isV2 rq rest verifyResult settlementResult.
            ctx_incoming ctx = Some md \<and>
            ExtractPaymentFromMetadata L md = (Inr payload, isV2) \<and>
            BuildPaymentRequirements rule = rq # rest \<and>
            cv_Verify (cfg_Verifier cfg) ctx payload (Some rq) = Inr verifyResult \<and>
            ver_Valid verifyResult \<and>
            cv_Settle (cfg_Verifier cfg) ctx payload (Some rq) = Inr settlementResult"
proof -
  from assms obtain md where md: "ctx_incoming ctx = Some md"
    by (auto simp: grpc_failsBeforeSettled_def split: option.splits)
  obtain x isV2 where ex: "ExtractPaymentFromMetadata L md = (x, isV2)"
    by (cases "ExtractPaymentFromMetadata L md")
  from assms md ex obtain payload where p: "x = Inr payload"
    by (auto simp: grpc_failsBeforeSettled_def split: sum.splits)
  from assms md ex p obtain rq rest where rq: "BuildPaymentRequirements rule = rq # rest"
    by (auto simp: grpc_failsBeforeSettled_def split: list.splits)
  from assms md ex p rq obtain vr where
    vr: "cv_Verify (cfg_Verifier cfg) ctx payload (Some rq) = Inr vr"
    by (auto simp: grpc_failsBeforeSettled_def split: sum.splits)
  from assms md ex p rq vr have valid: "ver_Valid vr"
    and "\<not> isl (cv_Settle (cfg_Verifier cfg) ctx payload (Some rq))"
    by (auto simp: grpc_failsBeforeSettled_def)
  then obtain sr where "cv_Settle (cfg_Verifier cfg) ctx payload (Some rq) = Inr sr"
    by (cases "cv_Settle (cfg_Verifier cfg) ctx payload (Some rq)") auto
  with md ex p rq vr valid show ?thesis by blast
qed

text \<open>What the gRPC transport answers when the call carries no credential at all.\<close>

lemma unary_no_credential:
  assumes "MatchMethod (lib_glob L) cfg fullMethod = (Some rule, True)"
    and "ctx_incoming ctx = Some md"
    and "MD_Get md MetadataKeyPaymentSignature = []"
    and "MD_Get md MetadataKeyLegacyPayment = []"
  shows "UnaryServerInterceptor L cfg ctx req fullMethod handler =
           (Failed (grpc_sendPaymentRequired L rule), [])"
  using assms
  by (simp add: UnaryServerInterceptor_def ExtractPaymentFromMetadata_def)

lemma stream_no_credential:
  assumes "MatchMethod (lib_glob L) cfg fullMethod = (Some rule, True)"
    and "ctx_incoming ctx = Some md"
    and "MD_Get md MetadataKeyPaymentSignature = []"
    and "MD_Get md MetadataKeyLegacyPayment = []"
  shows "StreamServerInterceptor L cfg ctx fullMethod handler =
           (Failed (grpc_sendPaymentRequired L rule), [])"
  using assms
  by (simp add: StreamServerInterceptor_def ExtractPaymentFromMetadata_def)

lemma http_decode_failure:
  assumes "MatchEndpoint (lib_glob L) cfg (r_Path r) = (Some rule, True)"
    and "detectVersion r = (paymentHeader, isV2)" and "paymentHeader \<noteq> []"
    and "parseHeader L isV2 paymentHeader (buildRequirementsFromRule rule) = Inl err"
  shows "PaymentMiddleware L cfg next r =
           map OnWriter (sendError StatusBadRequest (InvalidPaymentHeader err))"
  using assms by (simp add: PaymentMiddleware_def)

lemma grpc_decode_failure:
  assumes "MatchMethod (lib_glob L) cfg fullMethod = (Some rule, True)"
    and "ctx_incoming ctx = Some md"
    and "ExtractPaymentFromMetadata L md = (Inl err, isV2)"
  shows "UnaryServerInterceptor L cfg ctx req fullMethod handler =
           (Failed (grpc_sendPaymentRequired L rule), [])"
    and "StreamServerInterceptor L cfg ctx fullMethod shandler =
           (Failed (grpc_sendPaymentRequired L rule), [])"
  using assms
  by (simp_all add: UnaryServerInterceptor_def StreamServerInterceptor_def)

lemma grpc_sendPaymentRequired_code:
  "grpc_sendPaymentRequired L rule =
     (case EncodePaymentRequirements L (BuildPaymentRequirements rule) of
        None \<Rightarrow> Status Internal EncodeRequirementsFailed
      | Some encoded \<Rightarrow> Status ResourceExhausted (EncodedRequirements encoded))"
  by (simp add: grpc_sendPaymentRequired_def)

text \<open>
  When the transport's own decoder reports an error for the credential of a priced
  request, HTTP answers with status 400, and gRPC (unary and stream) gives the very
  answer a call with no credential gets: the payment-required status,
  \<open>RESOURCE_EXHAUSTED\<close> with the encoded requirements as its message whenever the
  requirements encode, and in no case \<open>INVALID_ARGUMENT\<close>.
\<close>

lemma decoder_error_answers:
  "(MatchEndpoint (lib_glob L) cfg (r_Path r) = (Some rule, True) \<longrightarrow>
    detectVersion r = (paymentHeader, isV2) \<longrightarrow> paymentHeader \<noteq> [] \<longrightarrow>
    parseHeader L isV2 paymentHeader (buildRequirementsFromRule rule) = Inl err \<longrightarrow>
      PaymentMiddleware L cfg next r =
        map OnWriter (sendError StatusBadRequest (InvalidPaymentHeader err)) \<and>
      statusCodes (ownWriterCalls (PaymentMiddleware L cfg next r)) = [StatusBadRequest]) \<and>
   (MatchMethod (lib_glob L) cfg fullMethod = (Some mrule, True) \<longrightarrow>
    ctx_incoming ctx = Some md \<longrightarrow>
    ExtractPaymentFromMetadata L md = (Inl derr, v2) \<longrightarrow>
    ctx_incoming ctx0 = Some md0 \<longrightarrow>
    MD_Get md0 MetadataKeyPaymentSignature = [] \<longrightarrow>
    MD_Get md0 MetadataKeyLegacyPayment = [] \<longrightarrow>
      UnaryServerInterceptor L cfg ctx req fullMethod handler =
        UnaryServerInterceptor L cfg ctx0 req fullMethod handler \<and>
      StreamServerInterceptor L cfg ctx fullMethod shandler =
        StreamServerInterceptor L cfg ctx0 fullMethod shandler \<and>
      fst (UnaryServerInterceptor L cfg ctx req fullMethod handler) =
        Failed (grpc_sendPaymentRequired L mrule) \<and>
      fst (StreamServerInterceptor L cfg ctx fullMethod shandler) =
        Failed (grpc_sendPaymentRequired L mrule) \<and>
      (\<forall>encoded. EncodePaymentRequirements L (BuildPaymentRequirements mrule) = Some encoded \<longrightarrow>
         grpc_sendPaymentRequired L mrule =
           Status ResourceExhausted (EncodedRequirements encoded)) \<and>
      (\<forall>msg. grpc_sendPaymentRequired L mrule \<noteq> Status InvalidArgument msg))"
proof (intro conjI impI)
  assume a: "MatchEndpoint (lib_glob L) cfg (r_Path r) = (Some rule, True)"
    "detectVersion r = (paymentHeader, isV2)" "paymentHeader \<noteq> []"
    "parseHeader L isV2 paymentHeader (buildRequirementsFromRule rule) = Inl err"
  show "PaymentMiddleware L cfg next r =
        map OnWriter (sendError StatusBadRequest (InvalidPaymentHeader err))"
    by (rule http_decode_failure[OF a])
  then show "statusCodes (ownWriterCalls (PaymentMiddleware L cfg next r)) = [StatusBadRequest]"
    by (simp add: trace_simps)
next
  assume b: "MatchMethod (lib_glob L) cfg fullMethod = (Some mrule, True)"
    "ctx_incoming ctx = Some md" "ExtractPaymentFromMetadata L md = (Inl derr, v2)"
  assume c: "ctx_incoming ctx0 = Some md0" "MD_Get md0 MetadataKeyPaymentSignature = []"
    "MD_Get md0 MetadataKeyLegacyPayment = []"
  show "UnaryServerInterceptor L cfg ctx req fullMethod handler =
        UnaryServerInterceptor L cfg ctx0 req fullMethod handler"
    by (simp add: trace_simps grpc_decode_failure(1)[OF b] unary_no_credential[OF b(1) c])
  show "StreamServerInterceptor L cfg ctx fullMethod shandler =
        StreamServerInterceptor L cfg ctx0 fullMethod shandler"
    by (simp add: trace_simps grpc_decode_failure(2)[OF b] stream_no_credential[OF b(1) c])
  show "fst (UnaryServerInterceptor L cfg ctx req fullMethod handler) =
        Failed (grpc_sendPaymentRequired L mrule)"
    by (simp add: trace_simps grpc_decode_failure(1)[OF b])
  show "fst (StreamServerInterceptor L cfg ctx fullMethod shandler) =
        Failed (grpc_sendPaymentRequired L mrule)"
    by (simp add: trace_simps grpc_decode_failure(2)[OF b])
  show "\<forall>encoded. EncodePaymentRequirements L (BuildPaymentRequirements mrule) = Some encoded \<longrightarrow>
         grpc_sendPaymentRequired L mrule =
           Status ResourceExhausted (EncodedRequirements encoded)"
    by (simp add: trace_simps grpc_sendPaymentRequired_code)
  show "\<forall>msg. grpc_sendPaymentRequired L mrule \<noteq> Status InvalidArgument msg"
    by (simp add: trace_simps grpc_sendPaymentRequired_code split: option.splits)
qed

text \<open>
  C7: a priced request whose credential is present but fails structural decode - bad
  base64, bad JSON, a missing required field, a version that is too low - is answered
  with status 400 on HTTP, and on gRPC with the answer a call with no credential gets,
  \<open>RESOURCE_EXHAUSTED\<close> carrying the encoded requirements.  The gRPC transport does not
  do this for a version that is too low.  Its decoder \<open>DecodePaymentPayload\<close> has no
  version check, so a credential under \<open>payment-signature\<close> that decodes to a payload of
  version below 2 with a scheme payload - the string \<open>parsePaymentPayload\<close> of the HTTP
  transport refuses as "version too low" - is no decode failure there: the unary and
  the stream interceptor hand it to the verifier, and when the verifier accepts and
  settles it, they call the handler and return its result, where a call with no
  credential is refused with the payment-required status.
\<close>

theorem grpc_low_version_credential_served:
  assumes priced: "MatchMethod (lib_glob L) cfg fullMethod = (Some rule, True)"
    and md: "ctx_incoming ctx = Some md"
    and credential: "MD_Get md MetadataKeyPaymentSignature = v # vs"
    and b64: "lib_b64decode L v = Some jsonBytes"
    and json: "lib_unmarshalPayload L jsonBytes = Some payload"
    and low: "pay_X402Version payload < 2"
    and present: "pay_Payload payload \<noteq> None"
    and rq: "BuildPaymentRequirements rule = rq # rest"
    and verify: "cv_Verify (cfg_Verifier cfg) ctx payload (Some rq) = Inr verifyResult"
    and valid: "ver_Valid verifyResult"
    and settle: "cv_Settle (cfg_Verifier cfg) ctx payload (Some rq) = Inr settlementResult"
    and served:
      "handler (WithValue_PaymentContextKey ctx
                  (newPaymentContext verifyResult (req_Network rq) settlementResult)) req
         = Inr resp"
    and streamed:
      "shandler (WithValue_PaymentContextKey ctx
                   (newPaymentContext verifyResult (req_Network rq) settlementResult))
         = None"
    and ctx0: "ctx_incoming ctx0 = Some md0"
      "MD_Get md0 MetadataKeyPaymentSignature = []"
      "MD_Get md0 MetadataKeyLegacyPayment = []"
  shows "parsePaymentPayload L v = Inl (VersionTooLow (pay_X402Version payload)) \<and>
         fst (UnaryServerInterceptor L cfg ctx req fullMethod handler) = Returned resp \<and>
         handlerContexts (snd (UnaryServerInterceptor L cfg ctx req fullMethod handler))
           = [WithValue_PaymentContextKey ctx
                (newPaymentContext verifyResult (req_Network rq) settlementResult)] \<and>
         fst (StreamServerInterceptor L cfg ctx fullMethod shandler) = Returned () \<and>
         handlerContexts (snd (StreamServerInterceptor L cfg ctx fullMethod shandler))
           = [WithValue_PaymentContextKey ctx
                (newPaymentContext verifyResult (req_Network rq) settlementResult)] \<and>
         UnaryServerInterceptor L cfg ctx0 req fullMethod handler
           = (Failed (grpc_sendPaymentRequired L rule), []) \<and>
         StreamServerInterceptor L cfg ctx0 fullMethod shandler
           = (Failed (grpc_sendPaymentRequired L rule), []) \<and>
         UnaryServerInterceptor L cfg ctx req fullMethod handler
           \<noteq> UnaryServerInterceptor L cfg ctx0 req fullMethod handler \<and>
         StreamServerInterceptor L cfg ctx fullMethod shandler
           \<noteq> StreamServerInterceptor L cfg ctx0 fullMethod shandler"
proof -
  define ctx' where "ctx' = WithValue_PaymentContextKey ctx
      (newPaymentContext verifyResult (req_Network rq) settlementResult)"
  have decoded: "ExtractPaymentFromMetadata L md = (Inr payload, True)"
    using credential b64 json present
    by (simp add: ExtractPaymentFromMetadata_def DecodePaymentPayload_def)
  have http: "parsePaymentPayload L v = Inl (VersionTooLow (pay_X402Version payload))"
    using b64 json low present by (simp add: parsePaymentPayload_def)
  have unary: "UnaryServerInterceptor L cfg ctx req fullMethod handler =
      (Returned resp,
       [GVerify, GSettle, GHandler ctx'] @
       (case EncodePaymentResponse L (newPaymentResponse settlementResult) of
          None \<Rightarrow> []
        | Some encoded \<Rightarrow> [GSetTrailer (MD_Pairs (grpc_receiptKey True) encoded)]))"
    using unary_settled_result[OF priced md decoded rq verify valid settle,
            of req handler] served ctx'_def
    by (simp add: Let_def)
  have stream: "StreamServerInterceptor L cfg ctx fullMethod shandler =
      (Returned (),
       [GVerify, GSettle, GHandler ctx'] @
       (case EncodePaymentResponse L (newPaymentResponse settlementResult) of
          None \<Rightarrow> []
        | Some encoded \<Rightarrow> [GSetTrailer (MD_Pairs (grpc_receiptKey True) encoded)]))"
    using stream_settled_result[OF priced md decoded rq verify valid settle,
            of shandler] streamed ctx'_def
    by (simp add: Let_def)
  have unary0: "UnaryServerInterceptor L cfg ctx0 req fullMethod handler
      = (Failed (grpc_sendPaymentRequired L rule), [])"
    by (rule unary_no_credential[OF priced ctx0])
  have stream0: "StreamServerInterceptor L cfg ctx0 fullMethod shandler
      = (Failed (grpc_sendPaymentRequired L rule), [])"
    by (rule stream_no_credential[OF priced ctx0])
  have hu: "handlerContexts (snd (UnaryServerInterceptor L cfg ctx req fullMethod handler))
      = [ctx']"
    by (simp add: unary trace_simps split: option.splits)
  have hs: "handlerContexts (snd (StreamServerInterceptor L cfg ctx fullMethod shandler))
      = [ctx']"
    by (simp add: stream trace_simps split: option.splits)
  show ?thesis
    unfolding ctx'_def[symmetric]
    by (simp only: http hu hs unary0 stream0) (simp add: unary stream)
qed

theorem grpc_low_version_credential_served_witness:
  "MatchMethod (lib_glob sampleLib) (sampleConfig True) ''/pkg.Svc/GetItem''
     = (Some premiumRule, True) \<and>
   MD_Get (map_of [(''payment-signature'', [''b64:{v1}''])]) MetadataKeyPaymentSignature
     = [''b64:{v1}''] \<and>
   lib_b64decode sampleLib ''b64:{v1}'' = Some ''{v1}'' \<and>
   lib_unmarshalPayload sampleLib ''{v1}'' = Some (samplePayload 1) \<and>
   pay_X402Version (samplePayload 1) = 1 \<and>
   pay_Payload (samplePayload 1) \<noteq> None \<and>
   parsePaymentPayload sampleLib ''b64:{v1}'' = Inl (VersionTooLow 1) \<and>
   statusCodes (ownWriterCalls (PaymentMiddleware sampleLib (sampleConfig True)
     (\<lambda>r. [WriteHeader 200])
     (sampleRequest ''/v1/hello'' [(''PAYMENT-SIGNATURE'', [''b64:{v1}''])]))) = [400] \<and>
   fst (UnaryServerInterceptor sampleLib (sampleConfig True)
     (sampleCall [(''payment-signature'', [''b64:{v1}''])]) (7::nat)
     ''/pkg.Svc/GetItem'' (\<lambda>c q. Inr q)) = Returned 7 \<and>
   map ctx_payment (handlerContexts (snd (UnaryServerInterceptor sampleLib (sampleConfig True)
     (sampleCall [(''payment-signature'', [''b64:{v1}''])]) (7::nat)
     ''/pkg.Svc/GetItem'' (\<lambda>c q. Inr q))))
     = [Pointer (samplePaymentContext ''eip155:84532'')] \<and>
   fst (StreamServerInterceptor sampleLib (sampleConfig True)
     (sampleCall [(''payment-signature'', [''b64:{v1}''])])
     ''/pkg.Svc/GetItem'' (\<lambda>c. None)) = Returned () \<and>
   UnaryServerInterceptor sampleLib (sampleConfig True) (sampleCall []) (7::nat)
     ''/pkg.Svc/GetItem'' (\<lambda>c q. Inr q)
     = (Failed (Status ResourceExhausted (EncodedRequirements ''b64:{accepts}'')), []) \<and>
   StreamServerInterceptor sampleLib (sampleConfig True) (sampleCall [])
     ''/pkg.Svc/GetItem'' (\<lambda>c. None)
     = (Failed (Status ResourceExhausted (EncodedRequirements ''b64:{accepts}'')), [])"
  using grpc_low_version_credential_served
    [where L = sampleLib and cfg = "sampleConfig True" and fullMethod = "''/pkg.Svc/GetItem''"
       and rule = premiumRule
       and ctx = "sampleCall [(''payment-signature'', [''b64:{v1}''])]"
       and md = "map_of [(''payment-signature'', [''b64:{v1}''])]"
       and v = "''b64:{v1}''" and vs = "[]" and jsonBytes = "''{v1}''"
       and payload = "samplePayload 1"
       and rq = "hd (BuildPaymentRequirements premiumRule)" and rest = "[]"
       and verifyResult = "sampleVerification True" and settlementResult = sampleSettlement
       and handler = "\<lambda>c q. Inr q" and req = "7::nat" and resp = "7::nat"
       and shandler = "\<lambda>c. None"
       and ?ctx0.0 = "sampleCall []" and ?md0.0 = "map_of []"]
  by (simp add: sample_simps resolver_simps http_simps ctx_simps grpc_simps Let_def
        samplePaymentContext_def)

lemma http_receipt_key_only:
  assumes "detectVersion r = (paymentHeader, isV2)"
  shows "list_all (\<lambda>(k, v). k = http_receiptKey isV2)
           (receiptHeaders (PaymentMiddleware L cfg next r))"
  using assms
  by (simp add: trace_simps PaymentMiddleware_def Let_def http_receiptKey_def
        split: prod.splits sum.splits option.splits)

lemma http_receipt_emitted:
  assumes "MatchEndpoint (lib_glob L) cfg (r_Path r) = (Some rule, True)"
    and "detectVersion r = (paymentHeader, isV2)" and "paymentHeader \<noteq> []"
    and "buildRequirementsFromRule rule = Some rq"
    and "parseHeader L isV2 paymentHeader (Some rq) = Inr payload"
    and "cv_Verify (cfg_Verifier cfg) (r_Context r) payload (Some rq) = Inr verifyResult"
    and "ver_Valid verifyResult"
    and "cv_Settle (cfg_Verifier cfg) (r_Context r) payload (Some rq) = Inr settlementResult"
    and "lib_marshalResponse L (newPaymentResponse settlementResult) = Some responseJSON"
  shows "receiptHeaders (PaymentMiddleware L cfg next r) =
           [(http_receiptKey isV2, lib_b64encode L responseJSON)]"
  using http_settled_trace[OF assms(1-8), of "next"] assms(9)
  by (simp add: trace_simps http_receiptKey_def)

lemma unary_trailer_key_only:
  assumes "ctx_incoming ctx = Some md" and "ExtractPaymentFromMetadata L md = (x, isV2)"
  shows "list_all (trailerUnder (grpc_receiptKey isV2) (grpc_receiptKey (\<not> isV2)))
           (trailers (snd (UnaryServerInterceptor L cfg ctx req fullMethod handler)))"
  using assms
  by (simp add: trace_simps UnaryServerInterceptor_def Let_def grpc_receiptKey_def
        split: prod.splits sum.splits option.splits list.splits)

lemma stream_trailer_key_only:
  assumes "ctx_incoming ctx = Some md" and "ExtractPaymentFromMetadata L md = (x, isV2)"
  shows "list_all (trailerUnder (grpc_receiptKey isV2) (grpc_receiptKey (\<not> isV2)))
           (trailers (snd (StreamServerInterceptor L cfg ctx fullMethod handler)))"
  using assms
  by (simp add: trace_simps StreamServerInterceptor_def Let_def grpc_receiptKey_def
        split: prod.splits sum.splits option.splits list.splits)
lemma receiptKeys_differ:
  "http_receiptKey True \<noteq> http_receiptKey False"
  "grpc_receiptKey True \<noteq> grpc_receiptKey False"
  by (simp_all add: http_receiptKey_def grpc_receiptKey_def hdr_simps md_simps)

lemma grpc_receipt_emitted:
  assumes "MatchMethod (lib_glob L) cfg fullMethod = (Some rule, True)"
    and "ctx_incoming ctx = Some md"
    and "ExtractPaymentFromMetadata L md = (Inr payload, isV2)"
    and "BuildPaymentRequirements rule = rq # rest"
    and "cv_Verify (cfg_Verifier cfg) ctx payload (Some rq) = Inr verifyResult"
    and "ver_Valid verifyResult"
    and "cv_Settle (cfg_Verifier cfg) ctx payload (Some rq) = Inr settlementResult"
    and "EncodePaymentResponse L (newPaymentResponse settlementResult) = Some encoded"
  shows "handler (WithValue_PaymentContextKey ctx
            (newPaymentContext verifyResult (req_Network rq) settlementResult)) req = Inr resp
         \<Longrightarrow> trailers (snd (UnaryServerInterceptor L cfg ctx req fullMethod handler)) =
               [MD_Pairs (grpc_receiptKey isV2) encoded]"
    and "shandler (WithValue_PaymentContextKey ctx
            (newPaymentContext verifyResult (req_Network rq) settlementResult)) = None
         \<Longrightarrow> trailers (snd (StreamServerInterceptor L cfg ctx fullMethod shandler)) =
               [MD_Pairs (grpc_receiptKey isV2) encoded]"
  using assms(8)
  by (simp_all add: trace_simps unary_settled_result[OF assms(1-7)] stream_settled_result[OF assms(1-7)]
        Let_def)

text \<open>
  C4: the settlement receipt goes out under the response key of the protocol version of
  the inbound credential.  On HTTP every receipt header the middleware sets is
  \<open>PAYMENT-RESPONSE\<close> for a credential read from \<open>PAYMENT-SIGNATURE\<close> and
  \<open>X-PAYMENT-RESPONSE\<close> for one read from \<open>X-PAYMENT\<close>, and a settled request whose
  receipt encodes gets exactly that header; on gRPC every trailer the interceptors set
  holds \<open>payment-response\<close> and not \<open>x402-payment-response\<close> for a V2 credential, the
  reverse for a V1 credential, and a settled call whose handler succeeds and whose
  receipt encodes gets exactly that trailer.
\<close>

theorem receipt_key_matches_version:
  "http_receiptKey True \<noteq> http_receiptKey False \<and>
   grpc_receiptKey True \<noteq> grpc_receiptKey False \<and>
   (detectVersion r = (paymentHeader, isV2) \<longrightarrow>
      list_all (\<lambda>(k, v). k = http_receiptKey isV2)
        (receiptHeaders (PaymentMiddleware L cfg nextHandler r))) \<and>
   (MatchEndpoint (lib_glob L) cfg (r_Path r) = (Some rule, True) \<longrightarrow>
    detectVersion r = (paymentHeader, isV2) \<longrightarrow> paymentHeader \<noteq> [] \<longrightarrow>
    buildRequirementsFromRule rule = Some rq \<longrightarrow>
    parseHeader L isV2 paymentHeader (Some rq) = Inr payload \<longrightarrow>
    cv_Verify (cfg_Verifier cfg) (r_Context r) payload (Some rq) = Inr verifyResult \<longrightarrow>
    ver_Valid verifyResult \<longrightarrow>
    cv_Settle (cfg_Verifier cfg) (r_Context r) payload (Some rq) = Inr settlementResult \<longrightarrow>
    lib_marshalResponse L (newPaymentResponse settlementResult) = Some responseJSON \<longrightarrow>
      receiptHeaders (PaymentMiddleware L cfg nextHandler r) =
        [(http_receiptKey isV2, lib_b64encode L responseJSON)]) \<and>
   (ctx_incoming ctx = Some md \<longrightarrow> ExtractPaymentFromMetadata L md = (x, v2) \<longrightarrow>
      list_all (trailerUnder (grpc_receiptKey v2) (grpc_receiptKey (\<not> v2)))
        (trailers (snd (UnaryServerInterceptor L cfg ctx req fullMethod handler))) \<and>
      list_all (trailerUnder (grpc_receiptKey v2) (grpc_receiptKey (\<not> v2)))
        (trailers (snd (StreamServerInterceptor L cfg ctx fullMethod shandler)))) \<and>
   (MatchMethod (lib_glob L) cfg fullMethod = (Some mrule, True) \<longrightarrow>
    ctx_incoming ctx = Some md \<longrightarrow>
    ExtractPaymentFromMetadata L md = (Inr gpayload, v2) \<longrightarrow>
    BuildPaymentRequirements mrule = grq # rest \<longrightarrow>
    cv_Verify (cfg_Verifier cfg) ctx gpayload (Some grq) = Inr gverify \<longrightarrow>
    ver_Valid gverify \<longrightarrow>
    cv_Settle (cfg_Verifier cfg) ctx gpayload (Some grq) = Inr gsettle \<longrightarrow>
    EncodePaymentResponse L (newPaymentResponse gsettle) = Some encoded \<longrightarrow>
      (handler (WithValue_PaymentContextKey ctx
          (newPaymentContext gverify (req_Network grq) gsettle)) req = Inr resp \<longrightarrow>
       trailers (snd (UnaryServerInterceptor L cfg ctx req fullMethod handler)) =
         [MD_Pairs (grpc_receiptKey v2) encoded]) \<and>
      (shandler (WithValue_PaymentContextKey ctx
          (newPaymentContext gverify (req_Network grq) gsettle)) = None \<longrightarrow>
       trailers (snd (StreamServerInterceptor L cfg ctx fullMethod shandler)) =
         [MD_Pairs (grpc_receiptKey v2) encoded]))"
  using receiptKeys_differ
        http_receipt_key_only[of r paymentHeader isV2 L cfg nextHandler]
        http_receipt_emitted[of L cfg r rule paymentHeader isV2 rq payload verifyResult
          settlementResult responseJSON nextHandler]
        unary_trailer_key_only[of ctx md L x v2 cfg req fullMethod handler]
        stream_trailer_key_only[of ctx md L x v2 cfg fullMethod shandler]
        grpc_receipt_emitted(1)[of L cfg fullMethod mrule ctx md gpayload v2 grq rest gverify
          gsettle encoded handler req resp]
        grpc_receipt_emitted(2)[of L cfg fullMethod mrule ctx md gpayload v2 grq rest gverify
          gsettle encoded shandler]
  by blast
theorem receipt_key_matches_version_witness:
  "detectVersion (sampleRequest ''/v1/hello'' [(''X-PAYMENT'', [''b64:{legacy}''])])
     = (''b64:{legacy}'', False) \<and>
   parseHeader sampleLib False ''b64:{legacy}'' (Some sampleRequirements)
     = Inr upgradedLegacyPayload \<and>
   receiptHeaders (PaymentMiddleware sampleLib (sampleConfig True) (\<lambda>r. [WriteHeader 200])
     (sampleRequest ''/v1/hello'' [(''X-PAYMENT'', [''b64:{legacy}''])]))
     = [(''X-PAYMENT-RESPONSE'', ''b64:{tx:0xabc}'')] \<and>
   ExtractPaymentFromMetadata sampleLib (map_of [(''payment-signature'', [''b64:{v2}''])])
     = (Inr (samplePayload 2), True) \<and>
   trailers (snd (UnaryServerInterceptor sampleLib (sampleConfig True)
     (sampleCall [(''payment-signature'', [''b64:{v2}''])]) (7::nat) ''/pkg.Svc/GetItem''
     (\<lambda>c q. Inr q)))
     = [MD_Pairs ''payment-response'' ''b64:{tx:0xabc}''] \<and>
   trailers (snd (StreamServerInterceptor sampleLib (sampleConfig True)
     (sampleCall [(''payment-signature'', [''b64:{v2}''])]) ''/pkg.Svc/GetItem''
     (\<lambda>c. None)))
     = [MD_Pairs ''payment-response'' ''b64:{tx:0xabc}'']"
  using receipt_key_matches_version
    [where r = "sampleRequest ''/v1/hello'' [(''X-PAYMENT'', [''b64:{legacy}''])]"
       and paymentHeader = "''b64:{legacy}''" and ?isV2.0 = False and L = sampleLib
       and cfg = "sampleConfig True" and nextHandler = "\<lambda>r. [WriteHeader 200]"
       and rule = sampleRule and rq = sampleRequirements and payload = upgradedLegacyPayload
       and verifyResult = "sampleVerification True" and settlementResult = sampleSettlement
       and responseJSON = "''{tx:0xabc}''"
       and ctx = "sampleCall [(''payment-signature'', [''b64:{v2}''])]"
       and md = "map_of [(''payment-signature'', [''b64:{v2}''])]"
       and x = "Inr (samplePayload 2)" and ?v2.0 = True and req = "7::nat"
       and fullMethod = "''/pkg.Svc/GetItem''" and handler = "\<lambda>c q. Inr q"
       and shandler = "\<lambda>c. None" and mrule = premiumRule and gpayload = "samplePayload 2"
       and grq = premiumRequirements and rest = "[]"
       and gverify = "sampleVerification True" and gsettle = sampleSettlement
       and encoded = "''b64:{tx:0xabc}''" and resp = "7::nat"]
  by (simp add: sample_simps resolver_simps http_simps ctx_simps grpc_simps Let_def
        http_receiptKey_def grpc_receiptKey_def)

lemma unary_handler_error_no_trailer:
  assumes "c \<in> set (handlerContexts (snd (UnaryServerInterceptor L cfg ctx req fullMethod handler)))"
    and "handler c req = Inl err"
  shows "trailers (snd (UnaryServerInterceptor L cfg ctx req fullMethod handler)) = [] \<and>
         fst (UnaryServerInterceptor L cfg ctx req fullMethod handler) = Failed err"
  using assms
  by (auto simp: trace_simps UnaryServerInterceptor_def Let_def
        split: prod.splits sum.splits option.splits list.splits if_splits)

lemma stream_handler_error_no_trailer:
  assumes "c \<in> set (handlerContexts (snd (StreamServerInterceptor L cfg ctx fullMethod shandler)))"
    and "shandler c = Some err"
  shows "trailers (snd (StreamServerInterceptor L cfg ctx fullMethod shandler)) = [] \<and>
         fst (StreamServerInterceptor L cfg ctx fullMethod shandler) = Failed err"
  using assms
  by (auto simp: trace_simps StreamServerInterceptor_def Let_def
        split: prod.splits sum.splits option.splits list.splits if_splits)

lemma unary_trailer_only_on_success:
  assumes "trailers (snd (UnaryServerInterceptor L cfg ctx req fullMethod handler)) \<noteq> []"
  shows "\<exists>c resp. c \<in> set (handlerContexts
                      (snd (UnaryServerInterceptor L cfg ctx req fullMethod handler))) \<and>
           handler c req = Inr resp \<and>
           fst (UnaryServerInterceptor L cfg ctx req fullMethod handler) = Returned resp"
  using assms
  by (auto simp: trace_simps UnaryServerInterceptor_def Let_def
        split: prod.splits sum.splits option.splits list.splits if_splits)

lemma stream_trailer_only_on_success:
  assumes "trailers (snd (StreamServerInterceptor L cfg ctx fullMethod shandler)) \<noteq> []"
  shows "\<exists>c. c \<in> set (handlerContexts
                 (snd (StreamServerInterceptor L cfg ctx fullMethod shandler))) \<and>
           shandler c = None \<and>
           fst (StreamServerInterceptor L cfg ctx fullMethod shandler) = Returned ()"
  using assms
  by (auto simp: trace_simps StreamServerInterceptor_def Let_def
        split: prod.splits sum.splits option.splits list.splits if_splits)
text \<open>
  C8, as stated: after a successful settlement the receipt is attached only if the
  wrapped handler succeeded.  It fails on the HTTP transport, where the middleware sets
  the receipt header before it calls the handler: for a settled request whose handler
  answers with status 500, the trace still holds the \<open>PAYMENT-RESPONSE\<close> header.
\<close>

theorem http_receipt_despite_handler_failure_counterexample:
  "receiptHeaders (PaymentMiddleware sampleLib (sampleConfig True)
     (\<lambda>r. [WriteHeader 500, WriteBody (ErrorBody (HandlerMessage ''boom''))])
     (sampleRequest ''/v1/hello'' [(''PAYMENT-SIGNATURE'', [''b64:{v2}''])]))
     = [(''PAYMENT-RESPONSE'', ''b64:{tx:0xabc}'')] \<and>
   statusCodes (handlerWriterCalls (PaymentMiddleware sampleLib (sampleConfig True)
     (\<lambda>r. [WriteHeader 500, WriteBody (ErrorBody (HandlerMessage ''boom''))])
     (sampleRequest ''/v1/hello'' [(''PAYMENT-SIGNATURE'', [''b64:{v2}''])])))
     = [500]"
  by (simp add: sample_simps resolver_simps http_simps ctx_simps receiptHeaders_def Let_def)

text \<open>
  C8, amended: on the gRPC transports (unary and stream) the settlement receipt is
  attached only if the wrapped handler succeeded: a trailer is set only on a call whose
  handler returned no error, and when the handler returns an error the interceptor
  returns that error and sets no trailer, though settlement has happened.  On the HTTP
  transport the receipt header of a settled request is set before the wrapped handler
  is called, whatever the handler then does.
\<close>

theorem receipt_only_on_handler_success:
  "(c \<in> set (handlerContexts (snd (UnaryServerInterceptor L cfg ctx req fullMethod handler)))
      \<longrightarrow> handler c req = Inl err \<longrightarrow>
      trailers (snd (UnaryServerInterceptor L cfg ctx req fullMethod handler)) = [] \<and>
      fst (UnaryServerInterceptor L cfg ctx req fullMethod handler) = Failed err) \<and>
   (trailers (snd (UnaryServerInterceptor L cfg ctx req fullMethod handler)) \<noteq> [] \<longrightarrow>
      (\<exists>c' resp.
         c' \<in> set (handlerContexts
                  (snd (UnaryServerInterceptor L cfg ctx req fullMethod handler))) \<and>
         handler c' req = Inr resp \<and>
         fst (UnaryServerInterceptor L cfg ctx req fullMethod handler) = Returned resp)) \<and>
   (c \<in> set (handlerContexts (snd (StreamServerInterceptor L cfg ctx fullMethod shandler)))
      \<longrightarrow> shandler c = Some err \<longrightarrow>
      trailers (snd (StreamServerInterceptor L cfg ctx fullMethod shandler)) = [] \<and>
      fst (StreamServerInterceptor L cfg ctx fullMethod shandler) = Failed err) \<and>
   (trailers (snd (StreamServerInterceptor L cfg ctx fullMethod shandler)) \<noteq> [] \<longrightarrow>
      (\<exists>c'. c' \<in> set (handlerContexts
                     (snd (StreamServerInterceptor L cfg ctx fullMethod shandler))) \<and>
         shandler c' = None \<and>
         fst (StreamServerInterceptor L cfg ctx fullMethod shandler) = Returned ())) \<and>
   (MatchEndpoint (lib_glob L) cfg (r_Path r) = (Some rule, True) \<longrightarrow>
    detectVersion r = (paymentHeader, isV2) \<longrightarrow> paymentHeader \<noteq> [] \<longrightarrow>
    buildRequirementsFromRule rule = Some rq \<longrightarrow>
    parseHeader L isV2 paymentHeader (Some rq) = Inr payload \<longrightarrow>
    cv_Verify (cfg_Verifier cfg) (r_Context r) payload (Some rq) = Inr verifyResult \<longrightarrow>
    ver_Valid verifyResult \<longrightarrow>
    cv_Settle (cfg_Verifier cfg) (r_Context r) payload (Some rq) = Inr settlementResult \<longrightarrow>
    lib_marshalResponse L (newPaymentResponse settlementResult) = Some responseJSON \<longrightarrow>
      (\<exists>r'. PaymentMiddleware L cfg nextHandler r =
         [CallVerify, CallSettle,
          OnWriter (HeaderSet (http_receiptKey isV2) (lib_b64encode L responseJSON)),
          ServeHTTP r' (nextHandler r')]))"
proof (intro conjI impI)
  assume h: "c \<in> set (handlerContexts (snd (UnaryServerInterceptor L cfg ctx req fullMethod handler)))"
    "handler c req = Inl err"
  from unary_handler_error_no_trailer[OF h]
  show "trailers (snd (UnaryServerInterceptor L cfg ctx req fullMethod handler)) = []"
    and "fst (UnaryServerInterceptor L cfg ctx req fullMethod handler) = Failed err"
    by (simp_all add: trace_simps)
next
  assume "trailers (snd (UnaryServerInterceptor L cfg ctx req fullMethod handler)) \<noteq> []"
  then show "\<exists>c' resp.
         c' \<in> set (handlerContexts
                  (snd (UnaryServerInterceptor L cfg ctx req fullMethod handler))) \<and>
         handler c' req = Inr resp \<and>
         fst (UnaryServerInterceptor L cfg ctx req fullMethod handler) = Returned resp"
    by (rule unary_trailer_only_on_success)
next
  assume h: "c \<in> set (handlerContexts (snd (StreamServerInterceptor L cfg ctx fullMethod shandler)))"
    "shandler c = Some err"
  from stream_handler_error_no_trailer[OF h]
  show "trailers (snd (StreamServerInterceptor L cfg ctx fullMethod shandler)) = []"
    and "fst (StreamServerInterceptor L cfg ctx fullMethod shandler) = Failed err"
    by (simp_all add: trace_simps)
next
  assume "trailers (snd (StreamServerInterceptor L cfg ctx fullMethod shandler)) \<noteq> []"
  then show "\<exists>c'. c' \<in> set (handlerContexts
                     (snd (StreamServerInterceptor L cfg ctx fullMethod shandler))) \<and>
         shandler c' = None \<and>
         fst (StreamServerInterceptor L cfg ctx fullMethod shandler) = Returned ()"
    by (rule stream_trailer_only_on_success)
next
  assume a: "MatchEndpoint (lib_glob L) cfg (r_Path r) = (Some rule, True)"
    "detectVersion r = (paymentHeader, isV2)" "paymentHeader \<noteq> []"
    "buildRequirementsFromRule rule = Some rq"
    "parseHeader L isV2 paymentHeader (Some rq) = Inr payload"
    "cv_Verify (cfg_Verifier cfg) (r_Context r) payload (Some rq) = Inr verifyResult"
    "ver_Valid verifyResult"
    "cv_Settle (cfg_Verifier cfg) (r_Context r) payload (Some rq) = Inr settlementResult"
  assume m: "lib_marshalResponse L (newPaymentResponse settlementResult) = Some responseJSON"
  show "\<exists>r'. PaymentMiddleware L cfg nextHandler r =
         [CallVerify, CallSettle,
          OnWriter (HeaderSet (http_receiptKey isV2) (lib_b64encode L responseJSON)),
          ServeHTTP r' (nextHandler r')]"
    using http_settled_trace[OF a, of nextHandler] m by (simp add: trace_simps)
qed

theorem receipt_only_on_handler_success_witness:
  "handlerContexts (snd (UnaryServerInterceptor sampleLib (sampleConfig True)
     (sampleCall [(''payment-signature'', [''b64:{v2}''])]) (7::nat) ''/pkg.Svc/GetItem''
     (\<lambda>c q. (Inl (Status NotFound (HandlerMessage ''no item'')) :: error + nat))))
     = [WithValue_PaymentContextKey (sampleCall [(''payment-signature'', [''b64:{v2}''])])
          (newPaymentContext (sampleVerification True) ''eip155:84532'' sampleSettlement)] \<and>
   trailers (snd (UnaryServerInterceptor sampleLib (sampleConfig True)
     (sampleCall [(''payment-signature'', [''b64:{v2}''])]) (7::nat) ''/pkg.Svc/GetItem''
     (\<lambda>c q. (Inl (Status NotFound (HandlerMessage ''no item'')) :: error + nat)))) = [] \<and>
   fst (UnaryServerInterceptor sampleLib (sampleConfig True)
     (sampleCall [(''payment-signature'', [''b64:{v2}''])]) (7::nat) ''/pkg.Svc/GetItem''
     (\<lambda>c q. (Inl (Status NotFound (HandlerMessage ''no item'')) :: error + nat)))
     = Failed (Status NotFound (HandlerMessage ''no item'')) \<and>
   trailers (snd (StreamServerInterceptor sampleLib (sampleConfig True)
     (sampleCall [(''payment-signature'', [''b64:{v2}''])]) ''/pkg.Svc/GetItem''
     (\<lambda>c. Some (Status NotFound (HandlerMessage ''no item''))))) = [] \<and>
   fst (StreamServerInterceptor sampleLib (sampleConfig True)
     (sampleCall [(''payment-signature'', [''b64:{v2}''])]) ''/pkg.Svc/GetItem''
     (\<lambda>c. Some (Status NotFound (HandlerMessage ''no item''))))
     = Failed (Status NotFound (HandlerMessage ''no item'')) \<and>
   ownWriterCalls (PaymentMiddleware sampleLib (sampleConfig True) (\<lambda>r. [WriteHeader 500])
     (sampleRequest ''/v1/hello'' [(''PAYMENT-SIGNATURE'', [''b64:{v2}''])]))
     = [HeaderSet ''PAYMENT-RESPONSE'' ''b64:{tx:0xabc}'']"
  using receipt_only_on_handler_success
    [where L = sampleLib and cfg = "sampleConfig True"
       and ctx = "sampleCall [(''payment-signature'', [''b64:{v2}''])]"
       and c = "WithValue_PaymentContextKey
                  (sampleCall [(''payment-signature'', [''b64:{v2}''])])
                  (newPaymentContext (sampleVerification True) ''eip155:84532''
                     sampleSettlement)"
       and req = "7::nat" and fullMethod = "''/pkg.Svc/GetItem''"
       and handler = "\<lambda>c q. (Inl (Status NotFound (HandlerMessage ''no item'')) :: error + nat)"
       and err = "Status NotFound (HandlerMessage ''no item'')"
       and shandler = "\<lambda>c. Some (Status NotFound (HandlerMessage ''no item''))"
       and r = "sampleRequest ''/v1/hello'' [(''PAYMENT-SIGNATURE'', [''b64:{v2}''])]"
       and rule = sampleRule and paymentHeader = "''b64:{v2}''" and ?isV2.0 = True
       and rq = sampleRequirements and payload = "samplePayload 2"
       and verifyResult = "sampleVerification True" and settlementResult = sampleSettlement
       and responseJSON = "''{tx:0xabc}''" and nextHandler = "\<lambda>r. [WriteHeader 500]"]
  by (simp add: sample_simps resolver_simps http_simps ctx_simps grpc_simps Let_def
        http_receiptKey_def)

section \<open>Properties of version detection\<close>

lemma detectVersion_v2:
  assumes "Header_Get (r_Header r) HeaderPaymentSignature \<noteq> []"
  shows "detectVersion r = (Header_Get (r_Header r) HeaderPaymentSignature, True)"
  using assms by (simp add: detectVersion_def)

lemma detectVersion_v1:
  assumes "Header_Get (r_Header r) HeaderPaymentSignature = []"
  shows "detectVersion r = (Header_Get (r_Header r) HeaderLegacyPayment, False)"
  using assms by (simp add: detectVersion_def)

lemma detectVersion_ignores_legacy:
  assumes "Header_Get (r_Header r) HeaderPaymentSignature \<noteq> []"
  shows "detectVersion (r\<lparr>r_Header := (r_Header r)(HeaderLegacyPayment := legacy)\<rparr>)
           = detectVersion r"
  using assms by (simp add: detectVersion_def Header_Get_def hdr_simps)

lemma Extract_v2:
  assumes "MD_Get md MetadataKeyPaymentSignature = v # vs"
  shows "ExtractPaymentFromMetadata L md = (DecodePaymentPayload L v, True)"
  using assms by (simp add: ExtractPaymentFromMetadata_def)

lemma Extract_v1:
  assumes "MD_Get md MetadataKeyPaymentSignature = []"
  shows "ExtractPaymentFromMetadata L md =
           (case MD_Get md MetadataKeyLegacyPayment of
              v # _ \<Rightarrow> (DecodeLegacyPayment L v, False)
            | [] \<Rightarrow> (Inl NoPaymentFound, False))"
  using assms by (simp add: ExtractPaymentFromMetadata_def)

lemma Extract_ignores_legacy:
  assumes "MD_Get md MetadataKeyPaymentSignature = v # vs"
  shows "ExtractPaymentFromMetadata L (md(MetadataKeyLegacyPayment := legacy))
           = ExtractPaymentFromMetadata L md"
  using assms by (simp add: ExtractPaymentFromMetadata_def MD_Get_def md_simps)

text \<open>
  C3, as stated: a priced request in which the V2 credential key is present is treated
  as V2, and the V1 key is consulted only when the V2 key is absent.  It fails on HTTP
  for a \<open>PAYMENT-SIGNATURE\<close> header that is present with an empty value:
  \<open>Header.Get\<close> returns the empty string for it as for a missing header, so the
  middleware reads \<open>X-PAYMENT\<close>, decodes it with the V1 decoder and answers on
  \<open>X-PAYMENT-RESPONSE\<close>.
\<close>

theorem empty_v2_header_counterexample:
  "r_Header (sampleRequest ''/v1/hello''
      [(''PAYMENT-SIGNATURE'', ['''']), (''X-PAYMENT'', [''b64:{legacy}''])])
     HeaderPaymentSignature = Some [''''] \<and>
   detectVersion (sampleRequest ''/v1/hello''
      [(''PAYMENT-SIGNATURE'', ['''']), (''X-PAYMENT'', [''b64:{legacy}''])])
     = (''b64:{legacy}'', False) \<and>
   receiptHeaders (PaymentMiddleware sampleLib (sampleConfig True) (\<lambda>r. [WriteHeader 200])
     (sampleRequest ''/v1/hello''
        [(''PAYMENT-SIGNATURE'', ['''']), (''X-PAYMENT'', [''b64:{legacy}''])]))
     = [(''X-PAYMENT-RESPONSE'', ''b64:{tx:0xabc}'')]"
  by (simp add: sample_simps resolver_simps http_simps ctx_simps receiptHeaders_def Let_def)

text \<open>
  C3, amended: a priced request in which the V2 credential key carries a credential -
  on HTTP a \<open>PAYMENT-SIGNATURE\<close> header whose first value is not empty, on gRPC a
  \<open>payment-signature\<close> entry with at least one value - is treated as V2 and decoded
  with the V2 decoder, whatever the V1 legacy key holds; the V1 key (\<open>X-PAYMENT\<close>,
  \<open>x402-payment\<close>) is consulted only otherwise.
\<close>

theorem v2_key_takes_precedence:
  "(Header_Get (r_Header r) HeaderPaymentSignature \<noteq> [] \<longrightarrow>
      detectVersion r = (Header_Get (r_Header r) HeaderPaymentSignature, True) \<and>
      parseHeader L (snd (detectVersion r)) (fst (detectVersion r)) requirements =
        parsePaymentPayload L (Header_Get (r_Header r) HeaderPaymentSignature) \<and>
      detectVersion (r\<lparr>r_Header := (r_Header r)(HeaderLegacyPayment := legacy)\<rparr>)
        = detectVersion r) \<and>
   (Header_Get (r_Header r) HeaderPaymentSignature = [] \<longrightarrow>
      detectVersion r = (Header_Get (r_Header r) HeaderLegacyPayment, False)) \<and>
   (MD_Get md MetadataKeyPaymentSignature = v # vs \<longrightarrow>
      ExtractPaymentFromMetadata L md = (DecodePaymentPayload L v, True) \<and>
      ExtractPaymentFromMetadata L (md(MetadataKeyLegacyPayment := legacy))
        = ExtractPaymentFromMetadata L md) \<and>
   (MD_Get md MetadataKeyPaymentSignature = [] \<longrightarrow>
      ExtractPaymentFromMetadata L md =
        (case MD_Get md MetadataKeyLegacyPayment of
           w # _ \<Rightarrow> (DecodeLegacyPayment L w, False)
         | [] \<Rightarrow> (Inl NoPaymentFound, False)))"
  using detectVersion_v2[of r] detectVersion_v1[of r] detectVersion_ignores_legacy[of r legacy]
        Extract_v2[of md v vs L] Extract_v1[of md L] Extract_ignores_legacy[of md v vs L legacy]
  by (auto simp: parseHeader_def)

theorem v2_key_takes_precedence_witness:
  "Header_Get (r_Header (sampleRequest ''/v1/hello''
      [(''PAYMENT-SIGNATURE'', [''b64:{v2}'']), (''X-PAYMENT'', [''b64:{legacy}''])]))
     HeaderPaymentSignature = ''b64:{v2}'' \<and>
   detectVersion (sampleRequest ''/v1/hello''
      [(''PAYMENT-SIGNATURE'', [''b64:{v2}'']), (''X-PAYMENT'', [''b64:{legacy}''])])
     = (''b64:{v2}'', True) \<and>
   parseHeader sampleLib True ''b64:{v2}'' (Some sampleRequirements) = Inr (samplePayload 2) \<and>
   MD_Get (map_of [(''payment-signature'', [''b64:{v2}'']), (''x402-payment'', [''b64:{legacy}''])])
     MetadataKeyPaymentSignature = [''b64:{v2}''] \<and>
   ExtractPaymentFromMetadata sampleLib
     (map_of [(''payment-signature'', [''b64:{v2}'']), (''x402-payment'', [''b64:{legacy}''])])
     = (Inr (samplePayload 2), True) \<and>
   Header_Get (r_Header (sampleRequest ''/v1/hello'' [(''X-PAYMENT'', [''b64:{legacy}''])]))
     HeaderPaymentSignature = [] \<and>
   detectVersion (sampleRequest ''/v1/hello'' [(''X-PAYMENT'', [''b64:{legacy}''])])
     = (''b64:{legacy}'', False) \<and>
   MD_Get (map_of [(''x402-payment'', [''b64:{legacy}''])]) MetadataKeyPaymentSignature = [] \<and>
   ExtractPaymentFromMetadata sampleLib (map_of [(''x402-payment'', [''b64:{legacy}''])])
     = (Inr (upgradedLegacyPayload\<lparr>pay_Accepted :=
            (pay_Accepted upgradedLegacyPayload)\<lparr>req_Amount := [], req_Asset := [],
               req_PayTo := []\<rparr>\<rparr>), False)"
  using v2_key_takes_precedence
    [where r = "sampleRequest ''/v1/hello''
                  [(''PAYMENT-SIGNATURE'', [''b64:{v2}'']), (''X-PAYMENT'', [''b64:{legacy}''])]"
       and L = sampleLib and requirements = "Some sampleRequirements" and legacy = None
       and md = "map_of [(''payment-signature'', [''b64:{v2}'']),
                         (''x402-payment'', [''b64:{legacy}''])]"
       and v = "''b64:{v2}''" and vs = "[]"]
    v2_key_takes_precedence
    [where r = "sampleRequest ''/v1/hello'' [(''X-PAYMENT'', [''b64:{legacy}''])]"
       and L = sampleLib and requirements = "Some sampleRequirements" and legacy = None
       and md = "map_of [(''x402-payment'', [''b64:{legacy}''])]"
       and v = "''b64:{v2}''" and vs = "[]"]
  by (simp add: sample_simps http_simps ctx_simps grpc_simps Let_def)

section \<open>Properties of payment context propagation\<close>

lemma verifiedContext_require:
  assumes "verifiedContext ctx"
  shows "\<exists>p. GetPaymentFromContext ctx = (Some p, True) \<and> pc_Verified p \<and>
             RequirePayment ctx = Returned p \<and> grpc_RequirePayment ctx = Returned p"
  using assms
  by (auto simp: verifiedContext_def split: prod.splits option.splits bool.splits)

lemma http_injects_verified:
  "(\<not> snd (MatchEndpoint (lib_glob L) cfg (r_Path r)) \<longrightarrow>
      handlerRequests (PaymentMiddleware L cfg nextHandler r) = [r]) \<and>
   (snd (MatchEndpoint (lib_glob L) cfg (r_Path r)) \<longrightarrow>
      list_all (\<lambda>r'. verifiedContext (r_Context r'))
        (handlerRequests (PaymentMiddleware L cfg nextHandler r)))"
  by (simp add: trace_simps PaymentMiddleware_def Let_def WithContext_def
        split: prod.splits sum.splits option.splits)

lemma v1_http_injects_verified:
  "(\<not> snd (V1_MatchEndpoint (lib1_glob L1) cfg1 (r_Path r)) \<longrightarrow>
      handlerRequests (V1_PaymentMiddleware L1 cfg1 nextHandler r) = [r]) \<and>
   (snd (V1_MatchEndpoint (lib1_glob L1) cfg1 (r_Path r)) \<longrightarrow>
      list_all (\<lambda>r'. verifiedContext (r_Context r'))
        (handlerRequests (V1_PaymentMiddleware L1 cfg1 nextHandler r)))"
  by (simp add: trace_simps V1_PaymentMiddleware_def Let_def WithContext_def
        split: prod.splits sum.splits option.splits)

lemma unary_injects_verified:
  "(\<not> snd (MatchMethod (lib_glob L) cfg fullMethod) \<longrightarrow>
      handlerContexts (snd (UnaryServerInterceptor L cfg ctx req fullMethod handler)) = [ctx]) \<and>
   (snd (MatchMethod (lib_glob L) cfg fullMethod) \<longrightarrow>
      list_all verifiedContext
        (handlerContexts (snd (UnaryServerInterceptor L cfg ctx req fullMethod handler))))"
  by (simp add: trace_simps UnaryServerInterceptor_def Let_def
        split: prod.splits sum.splits option.splits list.splits)

lemma stream_injects_verified:
  "(\<not> snd (MatchMethod (lib_glob L) cfg fullMethod) \<longrightarrow>
      handlerContexts (snd (StreamServerInterceptor L cfg ctx fullMethod shandler)) = [ctx]) \<and>
   (snd (MatchMethod (lib_glob L) cfg fullMethod) \<longrightarrow>
      list_all verifiedContext
        (handlerContexts (snd (StreamServerInterceptor L cfg ctx fullMethod shandler))))"
  by (simp add: trace_simps StreamServerInterceptor_def Let_def
        split: prod.splits sum.splits option.splits list.splits)

lemma v1_unary_injects_verified:
  "(\<not> snd (V1_MatchMethod (lib1_glob L1) cfg1 fullMethod) \<longrightarrow>
      handlerContexts (snd (V1_UnaryServerInterceptor L1 cfg1 ctx req fullMethod handler)) = [ctx]) \<and>
   (snd (V1_MatchMethod (lib1_glob L1) cfg1 fullMethod) \<longrightarrow>
      list_all verifiedContext
        (handlerContexts (snd (V1_UnaryServerInterceptor L1 cfg1 ctx req fullMethod handler))))"
  by (simp add: trace_simps V1_UnaryServerInterceptor_def Let_def
        split: prod.splits sum.splits option.splits list.splits)

lemma v1_stream_injects_verified:
  "(\<not> snd (V1_MatchMethod (lib1_glob L1) cfg1 fullMethod) \<longrightarrow>
      handlerContexts (snd (V1_StreamServerInterceptor L1 cfg1 ctx fullMethod shandler)) = [ctx]) \<and>
   (snd (V1_MatchMethod (lib1_glob L1) cfg1 fullMethod) \<longrightarrow>
      list_all verifiedContext
        (handlerContexts (snd (V1_StreamServerInterceptor L1 cfg1 ctx fullMethod shandler))))"
  by (simp add: trace_simps V1_StreamServerInterceptor_def Let_def
        split: prod.splits sum.splits option.splits list.splits)

text \<open>
  C10: every \<open>PaymentContext\<close> the core injects has \<open>Verified = true\<close>.  In the HTTP
  middleware and both gRPC interceptors, of the version-2 and of the version-1 package,
  a request that requires payment reaches the wrapped handler only with a context in
  which \<open>GetPaymentFromContext\<close> reports a verified payment and \<open>RequirePayment\<close> returns
  it (never "payment not verified"); a request that requires none reaches the handler
  with its own context, untouched.  A failure path calls no handler and so injects
  nothing.
\<close>

theorem injected_context_is_verified:
  "((\<not> snd (MatchEndpoint (lib_glob L) cfg (r_Path r)) \<longrightarrow>
       handlerRequests (PaymentMiddleware L cfg nextHandler r) = [r]) \<and>
    (snd (MatchEndpoint (lib_glob L) cfg (r_Path r)) \<longrightarrow>
       list_all (\<lambda>r'. verifiedContext (r_Context r'))
         (handlerRequests (PaymentMiddleware L cfg nextHandler r)))) \<and>
   ((\<not> snd (MatchMethod (lib_glob L) cfg fullMethod) \<longrightarrow>
       handlerContexts (snd (UnaryServerInterceptor L cfg ctx req fullMethod handler)) = [ctx] \<and>
       handlerContexts (snd (StreamServerInterceptor L cfg ctx fullMethod shandler)) = [ctx]) \<and>
    (snd (MatchMethod (lib_glob L) cfg fullMethod) \<longrightarrow>
       list_all verifiedContext
         (handlerContexts (snd (UnaryServerInterceptor L cfg ctx req fullMethod handler))) \<and>
       list_all verifiedContext
         (handlerContexts (snd (StreamServerInterceptor L cfg ctx fullMethod shandler))))) \<and>
   ((\<not> snd (V1_MatchEndpoint (lib1_glob L1) cfg1 (r_Path r)) \<longrightarrow>
       handlerRequests (V1_PaymentMiddleware L1 cfg1 nextHandler r) = [r]) \<and>
    (snd (V1_MatchEndpoint (lib1_glob L1) cfg1 (r_Path r)) \<longrightarrow>
       list_all (\<lambda>r'. verifiedContext (r_Context r'))
         (handlerRequests (V1_PaymentMiddleware L1 cfg1 nextHandler r)))) \<and>
   ((\<not> snd (V1_MatchMethod (lib1_glob L1) cfg1 fullMethod) \<longrightarrow>
       handlerContexts (snd (V1_UnaryServerInterceptor L1 cfg1 ctx req fullMethod handler))
         = [ctx] \<and>
       handlerContexts (snd (V1_StreamServerInterceptor L1 cfg1 ctx fullMethod shandler))
         = [ctx]) \<and>
    (snd (V1_MatchMethod (lib1_glob L1) cfg1 fullMethod) \<longrightarrow>
       list_all verifiedContext
         (handlerContexts
            (snd (V1_UnaryServerInterceptor L1 cfg1 ctx req fullMethod handler))) \<and>
       list_all verifiedContext
         (handlerContexts
            (snd (V1_StreamServerInterceptor L1 cfg1 ctx fullMethod shandler))))) \<and>
   (verifiedContext c \<longrightarrow>
      (\<exists>p. GetPaymentFromContext c = (Some p, True) \<and> pc_Verified p \<and>
           RequirePayment c = Returned p \<and> grpc_RequirePayment c = Returned p))"
  using http_injects_verified[of L cfg r nextHandler]
        unary_injects_verified[of L cfg fullMethod ctx req handler]
        stream_injects_verified[of L cfg fullMethod ctx shandler]
        v1_http_injects_verified[of L1 cfg1 r nextHandler]
        v1_unary_injects_verified[of L1 cfg1 fullMethod ctx req handler]
        v1_stream_injects_verified[of L1 cfg1 fullMethod ctx shandler]
        verifiedContext_require[of c]
  by blast

theorem injected_context_is_verified_witness:
  "snd (MatchEndpoint (lib_glob sampleLib) (sampleConfig True) ''/v1/hello'') \<and>
   map r_Context (handlerRequests (PaymentMiddleware sampleLib (sampleConfig True)
     (\<lambda>r. [WriteHeader 200])
     (sampleRequest ''/v1/hello''
        [(''PAYMENT-SIGNATURE'', [''b64:{v2}'']), (''X-PAYMENT'', [''b64:{payment}''])])))
     = [\<lparr>ctx_payment = Pointer (samplePaymentContext ''eip155:84532''),
         ctx_incoming = None\<rparr>] \<and>
   snd (V1_MatchEndpoint (lib1_glob sampleLib1) sampleConfig1 ''/v1/hello'') \<and>
   map r_Context (handlerRequests (V1_PaymentMiddleware sampleLib1 sampleConfig1
     (\<lambda>r. [WriteHeader 200])
     (sampleRequest ''/v1/hello''
        [(''PAYMENT-SIGNATURE'', [''b64:{v2}'']), (''X-PAYMENT'', [''b64:{payment}''])])))
     = [\<lparr>ctx_payment = Pointer (samplePaymentContext ''base-sepolia''),
         ctx_incoming = None\<rparr>] \<and>
   snd (MatchMethod (lib_glob sampleLib) (sampleConfig True) ''/pkg.Svc/GetItem'') \<and>
   map ctx_payment (handlerContexts (snd (UnaryServerInterceptor sampleLib (sampleConfig True)
     (sampleCall [(''payment-signature'', [''b64:{v2}'']), (''x402-payment'', [''b64:{payment}''])])
     (7::nat) ''/pkg.Svc/GetItem'' (\<lambda>c q. Inr q))))
     = [Pointer (samplePaymentContext ''eip155:84532'')] \<and>
   map ctx_payment (handlerContexts (snd (StreamServerInterceptor sampleLib (sampleConfig True)
     (sampleCall [(''payment-signature'', [''b64:{v2}'']), (''x402-payment'', [''b64:{payment}''])])
     ''/pkg.Svc/GetItem'' (\<lambda>c. None))))
     = [Pointer (samplePaymentContext ''eip155:84532'')] \<and>
   snd (V1_MatchMethod (lib1_glob sampleLib1) sampleConfig1 ''/pkg.Svc/GetItem'') \<and>
   map ctx_payment (handlerContexts (snd (V1_UnaryServerInterceptor sampleLib1 sampleConfig1
     (sampleCall [(''payment-signature'', [''b64:{v2}'']), (''x402-payment'', [''b64:{payment}''])])
     (7::nat) ''/pkg.Svc/GetItem'' (\<lambda>c q. Inr q))))
     = [Pointer (samplePaymentContext ''base-sepolia'')] \<and>
   map ctx_payment (handlerContexts (snd (V1_StreamServerInterceptor sampleLib1 sampleConfig1
     (sampleCall [(''payment-signature'', [''b64:{v2}'']), (''x402-payment'', [''b64:{payment}''])])
     ''/pkg.Svc/GetItem'' (\<lambda>c. None))))
     = [Pointer (samplePaymentContext ''base-sepolia'')] \<and>
   verifiedContext \<lparr>ctx_payment = Pointer (samplePaymentContext ''base-sepolia''),
                     ctx_incoming = None\<rparr> \<and>
   RequirePayment \<lparr>ctx_payment = Pointer (samplePaymentContext ''base-sepolia''),
                    ctx_incoming = None\<rparr> = Returned (samplePaymentContext ''base-sepolia'')"
  using injected_context_is_verified
    [where L = sampleLib and cfg = "sampleConfig True"
       and r = "sampleRequest ''/v1/hello''
                  [(''PAYMENT-SIGNATURE'', [''b64:{v2}'']), (''X-PAYMENT'', [''b64:{payment}''])]"
       and nextHandler = "\<lambda>r. [WriteHeader 200]"
       and fullMethod = "''/pkg.Svc/GetItem''"
       and ctx = "sampleCall [(''payment-signature'', [''b64:{v2}'']),
                              (''x402-payment'', [''b64:{payment}''])]"
       and req = "7::nat" and handler = "\<lambda>c q. Inr q" and shandler = "\<lambda>c. None"
       and ?L1.0 = sampleLib1 and ?cfg1.0 = sampleConfig1
       and c = "\<lparr>ctx_payment = Pointer (samplePaymentContext ''base-sepolia''),
                  ctx_incoming = None\<rparr>"]
  by (simp add: sample_simps resolver_simps http_simps ctx_simps grpc_simps v1_simps
        samplePaymentContext_def verifiedContext_def GetPaymentFromContext_def
        RequirePayment_def grpc_RequirePayment_def Let_def)

lemma MD_Get_Join_not_forwarded:
  "MD_Get forwarded k = [] \<Longrightarrow> MD_Get (MD_Join forwarded md) k = MD_Get md k"
  by (simp add: MD_Get_def MD_Join_def split: option.splits)

text \<open>
  The annotator's map joined after metadata that has no value under a payment key
  carries the emitted values under the six keys; so does the map itself.
\<close>

lemma joined_deliveredAsEmitted:
  "forwardsNoPaymentMetadata forwarded \<Longrightarrow> deliveredAsEmitted md (MD_Join forwarded md)"
  by (simp add: forwardsNoPaymentMetadata_def deliveredAsEmitted_def paymentMetadataKeys_def
        MD_Get_Join_not_forwarded)

lemma self_deliveredAsEmitted: "deliveredAsEmitted md md"
  by (simp add: deliveredAsEmitted_def paymentMetadataKeys_def)

lemma metadata_roundtrip:
  assumes "ctx_payment ctx = Pointer p" and "pc_Verified p"
    and "ctx_incoming h = Some incoming"
    and "deliveredAsEmitted (WithPaymentMetadata ctx) incoming"
  shows "GetPaymentFromGRPCContext h = (Some (p\<lparr>pc_SettledAt := zeroTime\<rparr>), True)"
proof -
  let ?md = "WithPaymentMetadata ctx"
  from assms(4) have get:
    "MD_Get incoming ''x-payment-verified'' = MD_Get ?md ''x-payment-verified''"
    "MD_Get incoming ''x-payment-payer'' = MD_Get ?md ''x-payment-payer''"
    "MD_Get incoming ''x-payment-amount'' = MD_Get ?md ''x-payment-amount''"
    "MD_Get incoming ''x-payment-network'' = MD_Get ?md ''x-payment-network''"
    "MD_Get incoming ''x-payment-token'' = MD_Get ?md ''x-payment-token''"
    "MD_Get incoming ''x-payment-tx-hash'' = MD_Get ?md ''x-payment-tx-hash''"
    by (simp_all add: deliveredAsEmitted_def paymentMetadataKeys_def)
  have emitted:
    "MD_Get ?md ''x-payment-verified'' = [''true'']"
    "MD_Get ?md ''x-payment-payer'' = [pc_PayerAddress p]"
    "MD_Get ?md ''x-payment-amount'' = [pc_Amount p]"
    "MD_Get ?md ''x-payment-network'' = [pc_Network p]"
    "MD_Get ?md ''x-payment-token'' = (if pc_TokenSymbol p \<noteq> [] then [pc_TokenSymbol p] else [])"
    "MD_Get ?md ''x-payment-tx-hash'' =
       (if pc_TransactionHash p \<noteq> [] then [pc_TransactionHash p] else [])"
    using assms(1,2)
    by (simp_all add: WithPaymentMetadata_def GetPaymentFromContext_def MD_Get_def MD_Set_def
          Let_def)
  show ?thesis
    using assms(2,3)
    by (cases p) (simp add: GetPaymentFromGRPCContext_def get emitted Let_def)
qed

lemma nothing_emitted:
  assumes "ctx_payment ctx = NoValue \<or> ctx_payment ctx = NilPointer \<or>
           (\<exists>p. ctx_payment ctx = Pointer p \<and> \<not> pc_Verified p)"
  shows "WithPaymentMetadata ctx = Map.empty"
  using assms
  by (auto simp: WithPaymentMetadata_def GetPaymentFromContext_def Let_def)

lemma nothing_read:
  assumes "WithPaymentMetadata ctx = Map.empty"
    and "ctx_incoming h = Some incoming"
    and "deliveredAsEmitted (WithPaymentMetadata ctx) incoming"
  shows "GetPaymentFromGRPCContext h = (None, False)"
proof -
  from assms(3) have "MD_Get incoming ''x-payment-verified''
      = MD_Get (WithPaymentMetadata ctx) ''x-payment-verified''"
    by (simp add: deliveredAsEmitted_def paymentMetadataKeys_def)
  also have "\<dots> = []"
    by (simp add: assms(1) MD_Get_def)
  finally show ?thesis
    using assms(2) by (simp add: GetPaymentFromGRPCContext_def)
qed

lemma no_metadata_read: "ctx_incoming h = None \<Longrightarrow> GetPaymentFromGRPCContext h = (None, False)"
  by (simp add: GetPaymentFromGRPCContext_def)

text \<open>
  Metadata that the request forwards under a payment key is not covered by
  \<open>deliveredAsEmitted\<close>: the annotator's values are joined after it and
  \<open>GetPaymentFromGRPCContext\<close> reads the first value of each key.  A paid request that
  forwards a payer of its own reads back with that payer, and an unpaid request that
  forwards \<open>x-payment-verified: true\<close> reads back as a verified payment.
\<close>

lemma forwarded_payment_metadata_read_first:
  "GetPaymentFromGRPCContext
     \<lparr>ctx_payment = NoValue,
      ctx_incoming = Some (MD_Join [''x-payment-payer'' \<mapsto> [''0xEvil'']]
        (WithPaymentMetadata
           \<lparr>ctx_payment = Pointer (samplePaymentContext ''eip155:84532''),
            ctx_incoming = None\<rparr>))\<rparr>
     = (Some ((samplePaymentContext ''eip155:84532'')
               \<lparr>pc_PayerAddress := ''0xEvil'', pc_SettledAt := 0\<rparr>), True)"
  "WithPaymentMetadata emptyContext = Map.empty"
  "GetPaymentFromGRPCContext
     \<lparr>ctx_payment = NoValue,
      ctx_incoming = Some (MD_Join [''x-payment-verified'' \<mapsto> [''true'']]
        (WithPaymentMetadata emptyContext))\<rparr>
     = (Some \<lparr>pc_Verified = True, pc_PayerAddress = [], pc_Amount = [],
              pc_TokenSymbol = [], pc_Network = [], pc_TransactionHash = [],
              pc_SettledAt = 0\<rparr>, True)"
  by (simp_all add: GetPaymentFromGRPCContext_def WithPaymentMetadata_def
        GetPaymentFromContext_def MD_Get_def MD_Set_def MD_Join_def Let_def
        samplePaymentContext_def emptyContext_def zeroTime_def)

text \<open>
  C9, as stated: the metadata \<open>WithPaymentMetadata\<close> emits for a verified
  \<open>PaymentContext\<close>, read back by \<open>GetPaymentFromGRPCContext\<close>, yields the same facts
  in every field, the settlement time included.  \<open>WithPaymentMetadata\<close> emits no pair
  for \<open>SettledAt\<close> and \<open>GetPaymentFromGRPCContext\<close> reads none: a context settled at a
  time other than the zero time does not read back as itself, neither from the emitted
  map as it is nor from the map joined after the request's own metadata.
\<close>

theorem settled_at_lost_counterexample:
  "pc_Verified (samplePaymentContext ''eip155:84532'') \<and>
   WithPaymentMetadata \<lparr>ctx_payment = Pointer (samplePaymentContext ''eip155:84532''),
                         ctx_incoming = None\<rparr>
     = [''x-payment-verified'' \<mapsto> [''true''], ''x-payment-payer'' \<mapsto> [''0xPayer''],
        ''x-payment-amount'' \<mapsto> [''1000000''], ''x-payment-network'' \<mapsto> [''eip155:84532''],
        ''x-payment-token'' \<mapsto> [''USDC''], ''x-payment-tx-hash'' \<mapsto> [''0xabc'']] \<and>
   GetPaymentFromGRPCContext
     \<lparr>ctx_payment = NoValue,
      ctx_incoming = Some (WithPaymentMetadata
        \<lparr>ctx_payment = Pointer (samplePaymentContext ''eip155:84532''),
         ctx_incoming = None\<rparr>)\<rparr>
     = (Some ((samplePaymentContext ''eip155:84532'')\<lparr>pc_SettledAt := 0\<rparr>), True) \<and>
   GetPaymentFromGRPCContext
     \<lparr>ctx_payment = NoValue,
      ctx_incoming = Some (MD_Join [''x-forwarded-host'' \<mapsto> [''api.example.com'']]
        (WithPaymentMetadata
           \<lparr>ctx_payment = Pointer (samplePaymentContext ''eip155:84532''),
            ctx_incoming = None\<rparr>))\<rparr>
     = (Some ((samplePaymentContext ''eip155:84532'')\<lparr>pc_SettledAt := 0\<rparr>), True) \<and>
   (samplePaymentContext ''eip155:84532'')\<lparr>pc_SettledAt := 0\<rparr>
     \<noteq> samplePaymentContext ''eip155:84532''"
  by (simp add: GetPaymentFromGRPCContext_def WithPaymentMetadata_def
        GetPaymentFromContext_def MD_Get_def MD_Set_def MD_Join_def Let_def
        samplePaymentContext_def zeroTime_def)

text \<open>
  C9, amended: for a request context holding a \<open>PaymentContext\<close> with
  \<open>Verified = true\<close>, the metadata emitted by \<open>WithPaymentMetadata\<close>, read back by
  \<open>GetPaymentFromGRPCContext\<close> in a handler whose incoming metadata carries under the
  six payment keys the values that were emitted, yields a \<open>PaymentContext\<close> with the
  same verified flag, payer address, amount, token symbol, network and transaction
  hash; the settlement time is not carried and reads back as the zero time.  When the
  context holds no \<open>PaymentContext\<close> (or a nil one) or an unverified one, no metadata
  pair is emitted, and \<open>GetPaymentFromGRPCContext\<close> reports not-found in a handler
  with no incoming metadata and in one whose incoming metadata carries under the six
  keys what was emitted, that is, nothing.  The emitted map itself is such incoming
  metadata, and so is the map joined after metadata of the request that has no value
  under a payment key.  What is read back when the request forwards a value under a
  payment key is not part of the statement.
\<close>

theorem gateway_metadata_roundtrip:
  "(ctx_payment ctx = Pointer p \<longrightarrow> pc_Verified p \<longrightarrow>
    ctx_incoming h = Some incoming \<longrightarrow>
    deliveredAsEmitted (WithPaymentMetadata ctx) incoming \<longrightarrow>
      GetPaymentFromGRPCContext h = (Some (p\<lparr>pc_SettledAt := zeroTime\<rparr>), True)) \<and>
   (ctx_payment ctx = NoValue \<or> ctx_payment ctx = NilPointer \<or>
    (\<exists>q. ctx_payment ctx = Pointer q \<and> \<not> pc_Verified q) \<longrightarrow>
      WithPaymentMetadata ctx = Map.empty \<and>
      (ctx_incoming h = None \<longrightarrow> GetPaymentFromGRPCContext h = (None, False)) \<and>
      (ctx_incoming h = Some incoming \<longrightarrow>
       deliveredAsEmitted (WithPaymentMetadata ctx) incoming \<longrightarrow>
         GetPaymentFromGRPCContext h = (None, False))) \<and>
   deliveredAsEmitted (WithPaymentMetadata ctx) (WithPaymentMetadata ctx) \<and>
   (forwardsNoPaymentMetadata forwarded \<longrightarrow>
      deliveredAsEmitted (WithPaymentMetadata ctx)
        (MD_Join forwarded (WithPaymentMetadata ctx)))"
  using metadata_roundtrip[of ctx p h incoming] nothing_emitted[of ctx]
    nothing_read[of ctx h incoming] no_metadata_read[of h]
    self_deliveredAsEmitted[of "WithPaymentMetadata ctx"]
    joined_deliveredAsEmitted[of forwarded "WithPaymentMetadata ctx"]
  by blast

theorem gateway_metadata_roundtrip_witness:
  "forwardsNoPaymentMetadata [''x-forwarded-host'' \<mapsto> [''api.example.com'']] \<and>
   pc_Verified (samplePaymentContext ''eip155:84532'') \<and>
   deliveredAsEmitted
     (WithPaymentMetadata \<lparr>ctx_payment = Pointer (samplePaymentContext ''eip155:84532''),
                            ctx_incoming = None\<rparr>)
     (MD_Join [''x-forwarded-host'' \<mapsto> [''api.example.com'']]
        (WithPaymentMetadata \<lparr>ctx_payment = Pointer (samplePaymentContext ''eip155:84532''),
                               ctx_incoming = None\<rparr>)) \<and>
   GetPaymentFromGRPCContext
     \<lparr>ctx_payment = NoValue,
      ctx_incoming = Some (MD_Join [''x-forwarded-host'' \<mapsto> [''api.example.com'']]
        (WithPaymentMetadata
           \<lparr>ctx_payment = Pointer (samplePaymentContext ''eip155:84532''),
            ctx_incoming = None\<rparr>))\<rparr>
     = (Some \<lparr>pc_Verified = True, pc_PayerAddress = ''0xPayer'', pc_Amount = ''1000000'',
              pc_TokenSymbol = ''USDC'', pc_Network = ''eip155:84532'',
              pc_TransactionHash = ''0xabc'', pc_SettledAt = 0\<rparr>, True) \<and>
   ctx_payment emptyContext = NoValue \<and>
   WithPaymentMetadata emptyContext = Map.empty \<and>
   GetPaymentFromGRPCContext emptyContext = (None, False) \<and>
   GetPaymentFromGRPCContext
     \<lparr>ctx_payment = NoValue,
      ctx_incoming = Some (MD_Join [''x-forwarded-host'' \<mapsto> [''api.example.com'']]
        (WithPaymentMetadata emptyContext))\<rparr>
     = (None, False)"
proof -
  let ?fwd = "[''x-forwarded-host'' \<mapsto> [''api.example.com'']] :: MD"
  let ?paid = "\<lparr>ctx_payment = Pointer (samplePaymentContext ''eip155:84532''),
                 ctx_incoming = None\<rparr>"
  have fwd: "forwardsNoPaymentMetadata ?fwd"
    by (simp add: forwardsNoPaymentMetadata_def paymentMetadataKeys_def MD_Get_def)
  note paid = gateway_metadata_roundtrip
      [of ?paid "samplePaymentContext ''eip155:84532''"
          "\<lparr>ctx_payment = NoValue,
            ctx_incoming = Some (MD_Join ?fwd (WithPaymentMetadata ?paid))\<rparr>"
          "MD_Join ?fwd (WithPaymentMetadata ?paid)" ?fwd]
  note unpaid = gateway_metadata_roundtrip
      [of emptyContext "samplePaymentContext ''eip155:84532''"
          "\<lparr>ctx_payment = NoValue,
            ctx_incoming = Some (MD_Join ?fwd (WithPaymentMetadata emptyContext))\<rparr>"
          "MD_Join ?fwd (WithPaymentMetadata emptyContext)" ?fwd]
  note nomd = gateway_metadata_roundtrip
      [of emptyContext "samplePaymentContext ''eip155:84532''" emptyContext
          "Map.empty" ?fwd]
  have e: "ctx_payment emptyContext = NoValue" "ctx_incoming emptyContext = None"
    by (simp_all add: emptyContext_def)
  have v: "pc_Verified (samplePaymentContext ''eip155:84532'')"
    "(samplePaymentContext ''eip155:84532'')\<lparr>pc_SettledAt := zeroTime\<rparr>
       = \<lparr>pc_Verified = True, pc_PayerAddress = ''0xPayer'', pc_Amount = ''1000000'',
          pc_TokenSymbol = ''USDC'', pc_Network = ''eip155:84532'',
          pc_TransactionHash = ''0xabc'', pc_SettledAt = 0\<rparr>"
    by (simp_all add: samplePaymentContext_def zeroTime_def)
  from paid unpaid nomd fwd e v show ?thesis
    by simp
qed

end
